theory Spec2Isabelle
  imports Main "HOL-Library.AList"
begin

section \<open>JavaScript values\<close>

text \<open>
  The payloads that travel between the backend, the API client and the session cache are
  JSON values. Numbers are modelled as integers (the payloads of this console carry
  counters and ids, never fractions); an object is the list of its members in order.
  \<open>JNum n\<close> stands for the JavaScript number \<open>n\<close> when \<open>n\<close> is a safe integer, of
  magnitude at most 2^53 - 1: these are the integers a double holds exactly and that
  JavaScript prints digit by digit. Numbers with a fraction or an exponent, and larger
  integers, are floating point and have no counterpart here.
\<close>

datatype json =
    JNull
  | JBool bool
  | JNum int
  | JStr string
  | JArr "json list"
  | JObj "(string \<times> json) list"

text \<open>JavaScript truthiness, as \<open>||\<close> and \<open>if (x)\<close> read a value.\<close>

fun truthy :: "json \<Rightarrow> bool" where
  "truthy JNull = False"
| "truthy (JBool b) = b"
| "truthy (JNum n) = (n \<noteq> 0)"
| "truthy (JStr s) = (s \<noteq> [])"
| "truthy (JArr xs) = True"
| "truthy (JObj kvs) = True"

section \<open>The typed API error (services/api.js, class ApiError)\<close>

record api_error =
  err_name :: string
  err_message :: string
  err_status :: int
  err_data :: json

text \<open>
  The error object that \<open>constructor(message, status, data = {})\<close> leaves, with the
  message as the string that \<open>super(message)\<close> has made of its argument. That conversion
  can throw; \<open>new_ApiError\<close> below is the constructor with it.
\<close>

definition ApiError :: "string \<Rightarrow> int \<Rightarrow> json \<Rightarrow> api_error" where
  "ApiError message status data =
     \<lparr>err_name = ''ApiError'', err_message = message, err_status = status, err_data = data\<rparr>"

definition isAuthError :: "api_error \<Rightarrow> bool" where
  "isAuthError e = (err_status e = 401 \<or> err_status e = 403)"

definition isServerError :: "api_error \<Rightarrow> bool" where
  "isServerError e = (err_status e \<ge> 500)"

definition isNetworkError :: "api_error \<Rightarrow> bool" where
  "isNetworkError e = (err_status e = 0)"

section \<open>Strings\<close>

text \<open>\<open>String.prototype.startsWith\<close> and \<open>String.prototype.includes\<close> (here \<open>includes_str\<close>).\<close>

fun startsWith :: "string \<Rightarrow> string \<Rightarrow> bool" where
  "startsWith s [] = True"
| "startsWith [] (p # ps) = False"
| "startsWith (c # cs) (p # ps) = (c = p \<and> startsWith cs ps)"

fun includes_str :: "string \<Rightarrow> string \<Rightarrow> bool" where
  "includes_str [] p = (p = [])"
| "includes_str (c # cs) p = (startsWith (c # cs) p \<or> includes_str cs p)"

text \<open>Decimal rendering of a number inside a template literal.\<close>

definition digit_char :: "nat \<Rightarrow> char" where
  "digit_char d = char_of (48 + d)"

fun digits :: "nat \<Rightarrow> string" where
  "digits n = (if n < 10 then [digit_char n] else digits (n div 10) @ [digit_char (n mod 10)])"

declare digits.simps [simp del]

definition show_int :: "int \<Rightarrow> string" where
  "show_int i = (if i < 0 then CHR ''-'' # digits (nat (- i)) else digits (nat i))"

text \<open>\<open>x || d\<close> on strings, where \<open>x\<close> may be unset: the empty string is falsy.\<close>

definition or_str :: "string \<Rightarrow> string \<Rightarrow> string" where
  "or_str a d = (if a \<noteq> [] then a else d)"

definition str_or :: "string option \<Rightarrow> string \<Rightarrow> string" where
  "str_or x d = (case x of Some s \<Rightarrow> or_str s d | None \<Rightarrow> d)"

text \<open>A value that is set wins over the one it is spread onto.\<close>

definition pick :: "'a option \<Rightarrow> 'a \<Rightarrow> 'a" where
  "pick u v = (case u of Some w \<Rightarrow> w | None \<Rightarrow> v)"

text \<open>\<open>String.prototype.toLowerCase\<close> on the ASCII letters.\<close>

definition lower_char :: "char \<Rightarrow> char" where
  "lower_char c =
     (let n = (of_char c :: nat) in if 65 \<le> n \<and> n \<le> 90 then char_of (n + 32) else c)"

definition toLowerCase :: "string \<Rightarrow> string" where
  "toLowerCase s = map lower_char s"

definition upper_char :: "char \<Rightarrow> char" where
  "upper_char c =
     (let n = (of_char c :: nat) in if 97 \<le> n \<and> n \<le> 122 then char_of (n - 32) else c)"

definition toUpperCase :: "string \<Rightarrow> string" where
  "toUpperCase s = map upper_char s"

text \<open>\<open>Array.prototype.join\<close> with its default separator, the comma.\<close>

fun commas :: "string list \<Rightarrow> string" where
  "commas [] = []"
| "commas [x] = x"
| "commas (x # y # ys) = x @ CHR '','' # commas (y # ys)"

section \<open>Web Storage\<close>

text \<open>
  \<open>sessionStorage\<close> (one per tab) and \<open>localStorage\<close> (persistent) are modelled as the
  list of their key/value pairs together with the quota of the origin. \<open>setItem\<close> throws
  \<open>QuotaExceededError\<close> when the stored characters would exceed the quota; \<open>getItem\<close>
  answers \<open>null\<close> (\<open>None\<close>) for a missing key; \<open>removeItem\<close> never fails.
\<close>

datatype js_error =
    ApiErr api_error
  | TypeError
  | SyntaxError
  | QuotaExceededError

record storage =
  items :: "(string \<times> string) list"
  quota :: nat

definition usage :: "(string \<times> string) list \<Rightarrow> nat" where
  "usage kvs = sum_list (map (\<lambda>(k, v). length k + length v) kvs)"

definition getItem :: "storage \<Rightarrow> string \<Rightarrow> string option" where
  "getItem st k = map_of (items st) k"

definition accepts :: "storage \<Rightarrow> string \<Rightarrow> string \<Rightarrow> bool" where
  "accepts st k v = (usage (AList.update k v (items st)) \<le> quota st)"

definition setItem :: "storage \<Rightarrow> string \<Rightarrow> string \<Rightarrow> js_error + storage" where
  "setItem st k v =
     (if accepts st k v then Inr (st\<lparr>items := AList.update k v (items st)\<rparr>)
      else Inl QuotaExceededError)"

definition removeItem :: "storage \<Rightarrow> string \<Rightarrow> storage" where
  "removeItem st k = st\<lparr>items := AList.delete k (items st)\<rparr>"

record browser =
  sessionStorage :: storage
  localStorage :: storage

text \<open>
  What a function of the client leaves behind besides its result and the storage: the
  artificial delay of demo mode, a request handed to \<open>fetch\<close> (by its URL), and an event
  dispatched on \<open>window\<close> (by its name and the \<open>type\<close> of its detail). Console output is
  left out.
\<close>

datatype effect =
    Delay
  | Fetch string
  | DispatchEvent string "string option"

section \<open>Conversion to a string\<close>

text \<open>
  \<open>ToString\<close> on a parsed JSON value, as \<open>Error\<close> applies it to the message it is given.
  A primitive converts to its text. An array converts through \<open>Array.prototype.join\<close>:
  its elements are converted in order, \<open>null\<close> giving the empty string, and the first
  element that throws makes the conversion throw. An object converts through its
  \<open>toString\<close> member: without one of its own it inherits \<open>Object.prototype.toString\<close>
  and converts to \<open>[object Object]\<close>; with one of its own, which in a parsed body is never
  a function, neither it nor \<open>valueOf\<close> yields a primitive and the conversion throws
  \<open>TypeError\<close>.
\<close>

fun first_error :: "('e + 'a) list \<Rightarrow> 'e + 'a list" where
  "first_error [] = Inr []"
| "first_error (Inl e # xs) = Inl e"
| "first_error (Inr x # xs) = (case first_error xs of Inl e \<Rightarrow> Inl e | Inr ys \<Rightarrow> Inr (x # ys))"

fun ToString :: "json \<Rightarrow> js_error + string" where
  "ToString JNull = Inr ''null''"
| "ToString (JBool b) = Inr (if b then ''true'' else ''false'')"
| "ToString (JNum n) = Inr (show_int n)"
| "ToString (JStr s) = Inr s"
| "ToString (JArr vs) =
     (case first_error (map (\<lambda>v. if v = JNull then Inr [] else ToString v) vs) of
        Inl e \<Rightarrow> Inl e
      | Inr parts \<Rightarrow> Inr (commas parts))"
| "ToString (JObj kvs) =
     (if map_of kvs ''toString'' = None then Inr ''[object Object]'' else Inl TypeError)"

text \<open>\<open>new ApiError(message, status, data)\<close>: the error object, or what \<open>super(message)\<close> throws.\<close>

definition new_ApiError :: "json \<Rightarrow> int \<Rightarrow> json \<Rightarrow> js_error + api_error" where
  "new_ApiError message status data =
     (case ToString message of
        Inl e \<Rightarrow> Inl e
      | Inr m \<Rightarrow> Inr (ApiError m status data))"

section \<open>Token handling (services/api.js)\<close>

definition TOKEN_STORAGE_KEY :: string where
  "TOKEN_STORAGE_KEY = ''admin_token''"

text \<open>\<open>a || b\<close> on two nullable strings: the empty string is falsy.\<close>

definition or_null :: "string option \<Rightarrow> string option \<Rightarrow> string option" where
  "or_null a b = (case a of Some s \<Rightarrow> if s \<noteq> [] then Some s else b | None \<Rightarrow> b)"

text \<open>
  \<open>getToken\<close>: the tab-scoped storage first, then the persistent one. (Its \<open>catch\<close> covers
  a storage that cannot be read; the storages of this model can always be read.)
\<close>

definition getToken :: "browser \<Rightarrow> string option" where
  "getToken b =
     or_null (getItem (sessionStorage b) TOKEN_STORAGE_KEY)
             (getItem (localStorage b) TOKEN_STORAGE_KEY)"

text \<open>
  A response as the client reads it: the status, the \<open>X-New-Token\<close> header and the body
  as \<open>response.json()\<close> parses it (\<open>None\<close> when the body is not JSON). \<open>response.ok\<close> is
  the 2xx range.
\<close>

record response =
  resp_status :: int
  x_new_token :: "string option"
  resp_body :: "json option"

definition ok :: "response \<Rightarrow> bool" where
  "ok r = (200 \<le> resp_status r \<and> resp_status r \<le> 299)"

text \<open>
  \<open>handleTokenRefresh\<close> stores a replacement token in the tab-scoped storage; the write is
  not guarded, so a refused write is thrown on.
\<close>

definition handleTokenRefresh :: "browser \<Rightarrow> response \<Rightarrow> js_error + browser" where
  "handleTokenRefresh b r =
     (case x_new_token r of
        None \<Rightarrow> Inr b
      | Some newToken \<Rightarrow>
          if newToken \<noteq> [] then
            (case setItem (sessionStorage b) TOKEN_STORAGE_KEY newToken of
               Inl e \<Rightarrow> Inl e
             | Inr s \<Rightarrow> Inr (b\<lparr>sessionStorage := s\<rparr>))
          else Inr b)"

text \<open>
  Reading a property of a parsed body: a member of an object (the last binding of a
  repeated key, as \<open>JSON.parse\<close> keeps it), \<open>undefined\<close> (\<open>None\<close>) on every other value
  but \<open>null\<close>, where the read throws.
\<close>

fun get_prop :: "json \<Rightarrow> string \<Rightarrow> js_error + json option" where
  "get_prop JNull k = Inl TypeError"
| "get_prop (JObj kvs) k = Inr (map_of (rev kvs) k)"
| "get_prop v k = Inr None"

definition or_json :: "json option \<Rightarrow> json \<Rightarrow> json" where
  "or_json a b = (case a of Some v \<Rightarrow> if truthy v then v else b | None \<Rightarrow> b)"

text \<open>
  \<open>handleResponse\<close>: the storage it leaves, the events it dispatches, and the error it
  throws or the body it resolves to. On a failure status the error is the \<open>ApiError\<close>
  when it can be built, and otherwise what building it throws: the \<open>TypeError\<close> of
  reading \<open>detail\<close> from a \<open>null\<close> body, or of converting the detail to a string.
\<close>

definition errorData_of :: "response \<Rightarrow> json" where
  "errorData_of r = (case resp_body r of None \<Rightarrow> JObj [] | Some j \<Rightarrow> j)"

definition handleResponse :: "browser \<Rightarrow> response \<Rightarrow> browser \<times> effect list \<times> (js_error + json)" where
  "handleResponse b r =
     (case handleTokenRefresh b r of
        Inl e \<Rightarrow> (b, [], Inl e)
      | Inr b1 \<Rightarrow>
          if \<not> ok r then
            (let (b2, evs) =
                   (if resp_status r = 401 then
                      (b1\<lparr>sessionStorage :=
                            removeItem (removeItem (sessionStorage b1) TOKEN_STORAGE_KEY)
                              ''admin_user_info''\<rparr>,
                       [DispatchEvent ''auth:expired'' None])
                    else (b1, []));
                 errorData = errorData_of r
             in case get_prop errorData ''detail'' of
                  Inl e \<Rightarrow> (b2, evs, Inl e)
                | Inr detail \<Rightarrow>
                    (case new_ApiError
                            (or_json detail (JStr (''HTTP '' @ show_int (resp_status r))))
                            (resp_status r) errorData of
                       Inl e \<Rightarrow> (b2, evs, Inl e)
                     | Inr err \<Rightarrow> (b2, evs, Inl (ApiErr err))))
          else
            (case resp_body r of
               None \<Rightarrow> (b1, [], Inl SyntaxError)
             | Some j \<Rightarrow> (b1, [], Inr j)))"

text \<open>\<open>authApi.logout\<close> and \<open>authApi.isLoggedIn\<close>.\<close>

definition logout :: "browser \<Rightarrow> browser \<times> effect list \<times> json" where
  "logout b =
     (b\<lparr>sessionStorage :=
          removeItem (removeItem (sessionStorage b) TOKEN_STORAGE_KEY) ''admin_user_info'',
        localStorage := removeItem (localStorage b) ''admin_session''\<rparr>,
      [],
      JObj [(''status'', JStr ''success'')])"

definition isLoggedIn :: "browser \<Rightarrow> bool" where
  "isLoggedIn b = (case getToken b of Some s \<Rightarrow> s \<noteq> [] | None \<Rightarrow> False)"

text \<open>The write of a replacement token, if the response carries one, fits the quota.\<close>

definition refresh_fits :: "browser \<Rightarrow> response \<Rightarrow> bool" where
  "refresh_fits b r =
     (case x_new_token r of
        None \<Rightarrow> True
      | Some t \<Rightarrow> t = [] \<or> accepts (sessionStorage b) TOKEN_STORAGE_KEY t)"

text \<open>
  The values \<open>ToString\<close> converts: every value but an object with a member named
  \<open>toString\<close> and an array that holds such an object, directly or inside nested arrays.
  A failure response is readable when its body is not the literal \<open>null\<close> and its
  \<open>detail\<close>, if it has one, is such a value.
\<close>

fun printable :: "json \<Rightarrow> bool" where
  "printable (JArr vs) = (\<forall>v\<in>set vs. printable v)"
| "printable (JObj kvs) = (map_of kvs ''toString'' = None)"
| "printable v = True"

definition error_readable :: "response \<Rightarrow> bool" where
  "error_readable r =
     (case get_prop (errorData_of r) ''detail'' of
        Inl e \<Rightarrow> False
      | Inr None \<Rightarrow> True
      | Inr (Some d) \<Rightarrow> printable d)"

section \<open>The notification queue (context/ToastContext.jsx)\<close>

text \<open>
  An entry of the queue, with the fields of the documented data model, and the partial
  entry that \<open>addToast\<close> and \<open>updateToast\<close> take: an object literal that sets some of
  the fields (\<open>None\<close> is a field the literal does not mention). Other properties that a
  caller may put on the object are spread along unchanged and are left out.
\<close>

record toast =
  tid :: string
  tstatus :: string
  progress :: int
  title :: string
  message :: string
  fileName :: string
  action :: string
  ttype :: string
  bulkProgress :: "(int \<times> int) option"

record toast_fields =
  p_id :: "string option"
  p_status :: "string option"
  p_progress :: "int option"
  p_title :: "string option"
  p_message :: "string option"
  p_fileName :: "string option"
  p_action :: "string option"
  p_type :: "string option"
  p_bulkProgress :: "(int \<times> int) option option"

text \<open>The object literal \<open>{}\<close>.\<close>

definition no_fields :: toast_fields where
  "no_fields =
     \<lparr>p_id = None, p_status = None, p_progress = None, p_title = None, p_message = None,
      p_fileName = None, p_action = None, p_type = None, p_bulkProgress = None\<rparr>"

text \<open>\<open>x || d\<close> on a number and on the batch counter: \<open>0\<close> and \<open>null\<close> are falsy.\<close>

definition num_or :: "int option \<Rightarrow> int \<Rightarrow> int" where
  "num_or x d = (case x of Some n \<Rightarrow> if n \<noteq> 0 then n else d | None \<Rightarrow> d)"

definition bulk_or_null :: "(int \<times> int) option option \<Rightarrow> (int \<times> int) option" where
  "bulk_or_null x = (case x of Some (Some b) \<Rightarrow> Some b | _ \<Rightarrow> None)"

text \<open>The spread \<open>{ ...toast, ...updates }\<close>: every field that \<open>updates\<close> sets wins.\<close>

definition spread :: "toast \<Rightarrow> toast_fields \<Rightarrow> toast" where
  "spread t u =
     \<lparr>tid = pick (p_id u) (tid t),
      tstatus = pick (p_status u) (tstatus t),
      progress = pick (p_progress u) (progress t),
      title = pick (p_title u) (title t),
      message = pick (p_message u) (message t),
      fileName = pick (p_fileName u) (fileName t),
      action = pick (p_action u) (action t),
      ttype = pick (p_type u) (ttype t),
      bulkProgress = pick (p_bulkProgress u) (bulkProgress t)\<rparr>"

text \<open>
  \<open>addToast\<close>. The id that \<open>Date.now().toString() + Math.random().toString(36).substr(2, 9)\<close>
  would produce is the parameter \<open>gen\<close>. The result is the new queue and the returned id.
\<close>

definition addToast :: "string \<Rightarrow> toast_fields \<Rightarrow> toast list \<Rightarrow> toast list \<times> string" where
  "addToast gen toast prev =
     (let id' = str_or (p_id toast) gen;
          newToast = spread
            \<lparr>tid = id',
             tstatus = str_or (p_status toast) ''pending'',
             progress = num_or (p_progress toast) 0,
             title = str_or (p_title toast) [],
             message = str_or (p_message toast) [],
             fileName = str_or (p_fileName toast) [],
             action = str_or (p_action toast) [],
             ttype = str_or (p_type toast) [],
             bulkProgress = bulk_or_null (p_bulkProgress toast)\<rparr> toast
      in (prev @ [newToast], id'))"

text \<open>
  \<open>updateToast\<close> maps over the queue; the entry whose id matches is merged with the updates
  and, when the update completes it, may dispatch one \<open>data-changed\<close> event.
\<close>

definition data_changed :: "string \<Rightarrow> effect" where
  "data_changed c = DispatchEvent ''data-changed'' (Some c)"

definition update_entry :: "string \<Rightarrow> toast_fields \<Rightarrow> toast \<Rightarrow> toast \<times> effect list" where
  "update_entry id' updates toast =
     (if tid toast = id' then
        (let updatedToast = spread toast updates;
             events =
               (if p_status updates = Some ''complete'' \<and> tstatus toast \<noteq> ''complete'' then
                  (let eventType = or_str (ttype toast) (or_str (toLowerCase (action toast)) [])
                   in if includes_str eventType ''upload'' \<or> includes_str eventType ''uploading''
                      then [data_changed ''upload'']
                      else if includes_str eventType ''archive'' \<or> includes_str eventType ''archiving''
                      then [data_changed ''archive'']
                      else if includes_str eventType ''restore'' \<or> includes_str eventType ''restoring''
                      then [data_changed ''restore'']
                      else if includes_str eventType ''delete'' \<or> includes_str eventType ''deleting''
                      then [data_changed ''delete'']
                      else [])
                else [])
         in (updatedToast, events))
      else (toast, []))"

definition updateToast :: "string \<Rightarrow> toast_fields \<Rightarrow> toast list \<Rightarrow> toast list \<times> effect list" where
  "updateToast id' updates prev =
     (map (\<lambda>toast. fst (update_entry id' updates toast)) prev,
      concat (map (\<lambda>toast. snd (update_entry id' updates toast)) prev))"

definition removeToast :: "string \<Rightarrow> toast list \<Rightarrow> toast list" where
  "removeToast id' prev = filter (\<lambda>toast. tid toast \<noteq> id') prev"

text \<open>\<open>showSuccess(message, title = 'Success')\<close> and \<open>showError(message, title = 'Error')\<close>.\<close>

definition showSuccess :: "string \<Rightarrow> string \<Rightarrow> string option \<Rightarrow> toast list \<Rightarrow> toast list" where
  "showSuccess gen msg title_arg prev =
     fst (addToast gen
       (no_fields\<lparr>p_status := Some ''complete'', p_title := Some (pick title_arg ''Success''),
                  p_message := Some msg\<rparr>) prev)"

definition showError :: "string \<Rightarrow> string \<Rightarrow> string option \<Rightarrow> toast list \<Rightarrow> toast list" where
  "showError gen msg title_arg prev =
     fst (addToast gen
       (no_fields\<lparr>p_status := Some ''error'', p_title := Some (pick title_arg ''Error''),
                  p_message := Some msg\<rparr>) prev)"

text \<open>
  A run of the queue: the operations in the order they are issued, each with the id the
  generator would hand out. A step gives the new queue and the ids it returned.
\<close>

datatype op =
    Add string toast_fields
  | Update string toast_fields
  | Remove string
  | ShowSuccess string string "string option"
  | ShowError string string "string option"

fun step :: "toast list \<Rightarrow> op \<Rightarrow> toast list \<times> string list" where
  "step q (Add gen toast) = (fst (addToast gen toast q), [snd (addToast gen toast q)])"
| "step q (Update id' updates) = (fst (updateToast id' updates q), [])"
| "step q (Remove id') = (removeToast id' q, [])"
| "step q (ShowSuccess gen msg title_arg) = (showSuccess gen msg title_arg q, [])"
| "step q (ShowError gen msg title_arg) = (showError gen msg title_arg q, [])"

fun run :: "(toast list \<Rightarrow> op \<Rightarrow> toast list \<times> string list) \<Rightarrow> toast list \<Rightarrow> op list
    \<Rightarrow> toast list \<times> string list" where
  "run f q [] = (q, [])"
| "run f q (x # xs) = (fst (run f (fst (f q x)) xs), snd (f q x) @ snd (run f (fst (f q x)) xs))"

text \<open>
  The queue as the specification words it: \<open>add\<close> gives every unset field its default, takes
  the given id or else the generated one, appends the entry and returns its id; \<open>update\<close>
  merges the fields into the entries with that id; \<open>remove\<close> deletes them.
\<close>

definition spec_entry :: "string \<Rightarrow> toast_fields \<Rightarrow> toast" where
  "spec_entry gen p =
     \<lparr>tid = pick (p_id p) gen,
      tstatus = pick (p_status p) ''pending'',
      progress = pick (p_progress p) 0,
      title = pick (p_title p) [],
      message = pick (p_message p) [],
      fileName = pick (p_fileName p) [],
      action = pick (p_action p) [],
      ttype = pick (p_type p) [],
      bulkProgress = pick (p_bulkProgress p) None\<rparr>"

definition spec_add :: "string \<Rightarrow> toast_fields \<Rightarrow> toast list \<Rightarrow> toast list \<times> string" where
  "spec_add gen p q = (q @ [spec_entry gen p], tid (spec_entry gen p))"

definition spec_update :: "string \<Rightarrow> toast_fields \<Rightarrow> toast list \<Rightarrow> toast list" where
  "spec_update i u q = map (\<lambda>t. if tid t = i then spread t u else t) q"

definition spec_remove :: "string \<Rightarrow> toast list \<Rightarrow> toast list" where
  "spec_remove i q = filter (\<lambda>t. tid t \<noteq> i) q"

fun spec_step :: "toast list \<Rightarrow> op \<Rightarrow> toast list \<times> string list" where
  "spec_step q (Add gen p) = (fst (spec_add gen p q), [snd (spec_add gen p q)])"
| "spec_step q (Update i u) = (spec_update i u q, [])"
| "spec_step q (Remove i) = (spec_remove i q, [])"
| "spec_step q (ShowSuccess gen msg title_arg) =
     (fst (spec_add gen (no_fields\<lparr>p_status := Some ''complete'',
        p_title := Some (pick title_arg ''Success''), p_message := Some msg\<rparr>) q), [])"
| "spec_step q (ShowError gen msg title_arg) =
     (fst (spec_add gen (no_fields\<lparr>p_status := Some ''error'',
        p_title := Some (pick title_arg ''Error''), p_message := Some msg\<rparr>) q), [])"

text \<open>An \<open>add\<close> whose partial entry carries no id, or a non-empty one.\<close>

fun id_usable :: "op \<Rightarrow> bool" where
  "id_usable (Add gen p) = (p_id p \<noteq> Some [])"
| "id_usable x = True"

text \<open>
  A run that keeps ids apart: the id of every entry it appends is not yet in the queue, and
  an update carries no id, or the id it addresses (as the \<open>update-toast\<close> event does, which
  passes its whole detail as the updates).
\<close>

fun keeps_ids_apart :: "toast list \<Rightarrow> op \<Rightarrow> bool" where
  "keeps_ids_apart q (Update i u) = (p_id u = None \<or> p_id u = Some i)"
| "keeps_ids_apart q (Remove i) = True"
| "keeps_ids_apart q x = (tid (last (fst (step q x))) \<notin> set (map tid q))"

fun ids_kept_apart :: "toast list \<Rightarrow> op list \<Rightarrow> bool" where
  "ids_kept_apart q [] = True"
| "ids_kept_apart q (x # xs) = (keeps_ids_apart q x \<and> ids_kept_apart (fst (step q x)) xs)"

text \<open>
  Two partial updates in one, the later one winning field by field.
\<close>

definition later :: "toast_fields \<Rightarrow> toast_fields \<Rightarrow> toast_fields" where
  "later a b =
     \<lparr>p_id = (case p_id b of Some x \<Rightarrow> Some x | None \<Rightarrow> p_id a),
      p_status = (case p_status b of Some x \<Rightarrow> Some x | None \<Rightarrow> p_status a),
      p_progress = (case p_progress b of Some x \<Rightarrow> Some x | None \<Rightarrow> p_progress a),
      p_title = (case p_title b of Some x \<Rightarrow> Some x | None \<Rightarrow> p_title a),
      p_message = (case p_message b of Some x \<Rightarrow> Some x | None \<Rightarrow> p_message a),
      p_fileName = (case p_fileName b of Some x \<Rightarrow> Some x | None \<Rightarrow> p_fileName a),
      p_action = (case p_action b of Some x \<Rightarrow> Some x | None \<Rightarrow> p_action a),
      p_type = (case p_type b of Some x \<Rightarrow> Some x | None \<Rightarrow> p_type a),
      p_bulkProgress =
        (case p_bulkProgress b of Some x \<Rightarrow> Some x | None \<Rightarrow> p_bulkProgress a)\<rparr>"

text \<open>
  The broadcast of an update as the property words it: the update completes the entry, and
  the type the entry has (or else its lowercased action) names a category.
\<close>

definition completes :: "toast \<Rightarrow> toast_fields \<Rightarrow> bool" where
  "completes t u = (tstatus (spread t u) = ''complete'' \<and> tstatus t \<noteq> ''complete'')"

definition matched_category :: "string \<Rightarrow> string option" where
  "matched_category s =
     (if includes_str s ''upload'' then Some ''upload''
      else if includes_str s ''archive'' \<or> includes_str s ''archiving'' then Some ''archive''
      else if includes_str s ''restore'' \<or> includes_str s ''restoring'' then Some ''restore''
      else if includes_str s ''delete'' \<or> includes_str s ''deleting'' then Some ''delete''
      else None)"

definition broadcast_of :: "toast \<Rightarrow> toast_fields \<Rightarrow> effect list" where
  "broadcast_of t u =
     (if completes t u then
        (case matched_category (or_str (ttype t) (toLowerCase (action t))) of
           Some c \<Rightarrow> [data_changed c]
         | None \<Rightarrow> [])
      else [])"

section \<open>JSON text\<close>

text \<open>
  \<open>JSON.stringify\<close> on a JSON value: the compact text, with the escapes it writes inside
  strings (\<open>\"\<close>, \<open>\\\<close>, the short forms of backspace, tab, newline, form feed and
  carriage return, \<open>\u00XX\<close> for the other control characters).
\<close>

definition hex_digit :: "nat \<Rightarrow> char" where
  "hex_digit d = (if d < 10 then char_of (48 + d) else char_of (87 + d))"

definition escape_char :: "char \<Rightarrow> string" where
  "escape_char c =
     (if c = CHR 0x22 then [CHR 0x5C, CHR 0x22]
      else if c = CHR 0x5C then [CHR 0x5C, CHR 0x5C]
      else if c = CHR 0x08 then [CHR 0x5C, CHR ''b'']
      else if c = CHR 0x09 then [CHR 0x5C, CHR ''t'']
      else if c = CHR 0x0A then [CHR 0x5C, CHR ''n'']
      else if c = CHR 0x0C then [CHR 0x5C, CHR ''f'']
      else if c = CHR 0x0D then [CHR 0x5C, CHR ''r'']
      else if (of_char c :: nat) < 32 then
        [CHR 0x5C, CHR ''u'', CHR ''0'', CHR ''0'',
         hex_digit ((of_char c :: nat) div 16), hex_digit ((of_char c :: nat) mod 16)]
      else [c])"

definition quote :: "string \<Rightarrow> string" where
  "quote s = CHR 0x22 # concat (map escape_char s) @ [CHR 0x22]"

fun JSON_stringify :: "json \<Rightarrow> string" where
  "JSON_stringify JNull = ''null''"
| "JSON_stringify (JBool b) = (if b then ''true'' else ''false'')"
| "JSON_stringify (JNum n) = show_int n"
| "JSON_stringify (JStr s) = quote s"
| "JSON_stringify (JArr vs) = CHR ''['' # commas (map JSON_stringify vs) @ '']''"
| "JSON_stringify (JObj kvs) =
     CHR ''{'' # commas (map (\<lambda>(k, v). quote k @ CHR '':'' # JSON_stringify v) kvs) @ ''}''"

text \<open>
  \<open>JSON.parse\<close>, on the texts of values of this model: literals, integers, strings with
  their escapes, arrays and objects, with insignificant white space between the tokens.
  The recursion into arrays and objects runs on fuel; \<open>JSON_parse\<close> gives it more than the
  length of the text. \<open>None\<close> is the \<open>SyntaxError\<close>. A text that denotes a value outside
  the model (a number with a fraction or an exponent, a \<open>\u\<close> escape of a character
  beyond ASCII) is refused as well, where \<open>JSON.parse\<close> reads it; the cache is therefore
  only described for keys under which nothing is stored or a text that
  \<open>JSON_stringify\<close> wrote (\<open>vacant\<close> and \<open>holds\<close> below).
\<close>

definition is_ws :: "char \<Rightarrow> bool" where
  "is_ws c = (c = CHR '' '' \<or> c = CHR 0x09 \<or> c = CHR 0x0A \<or> c = CHR 0x0D)"

fun skip_ws :: "string \<Rightarrow> string" where
  "skip_ws [] = []"
| "skip_ws (c # cs) = (if is_ws c then skip_ws cs else c # cs)"

definition is_digit :: "char \<Rightarrow> bool" where
  "is_digit c = (48 \<le> (of_char c :: nat) \<and> (of_char c :: nat) \<le> 57)"










text \<open>What may follow a value inside a text: nothing, or the next separator.\<close>

definition sep :: "string \<Rightarrow> bool" where
  "sep r = (case r of [] \<Rightarrow> True | c # cs \<Rightarrow> c = CHR '','' \<or> c = CHR '']'' \<or> c = CHR ''}'')"



section \<open>The session cache (utils/helpers.js)\<close>

definition CACHE_PREFIX :: string where
  "CACHE_PREFIX = ''cache_''"







definition clearAllCached :: "storage \<Rightarrow> storage" where
  "clearAllCached st =
     foldl (\<lambda>s key. if startsWith key CACHE_PREFIX then removeItem s key else s) st
       (map fst (items st))"










section \<open>Requests and demo mode (services/api.js)\<close>

definition isDemoMode :: "browser \<Rightarrow> bool" where
  "isDemoMode b = (getToken b = Some ''TEST_TOKEN_DEMO_MODE'')"

text \<open>The canned payloads of \<open>getMockResponse\<close>, after its artificial delay.\<close>

definition success :: "(string \<times> json) list \<Rightarrow> json" where
  "success members = JObj ((''status'', JStr ''success'') # members)"

definition getMockResponse :: "string \<Rightarrow> effect list \<times> json" where
  "getMockResponse endpoint =
     ([Delay],
      if includes_str endpoint ''/dashboard/stats'' then
        success [(''stats'', JObj [(''total_queries'', JNum 0)])]
      else if includes_str endpoint ''/dashboard/activity'' then
        success [(''activity'', JArr [])]
      else if includes_str endpoint ''/dashboard/weekly'' then
        success [(''weekly'', JArr [])]
      else if includes_str endpoint ''/knowledge'' then
        success [(''categories'', JObj [])]
      else if includes_str endpoint ''/system-instructions'' then
        success [(''content'', JStr [])]
      else if includes_str endpoint ''/projects'' then
        success [(''projects'', JArr [])]
      else if includes_str endpoint ''/contacts'' then
        success [(''contact'', JObj [(''email'', JStr []), (''socials'', JObj [])])]
      else if includes_str endpoint ''/communication'' then
        success [(''records'', JArr []), (''count'', JNum 0)]
      else success [(''data'', JArr [])])"

text \<open>
  A request as \<open>fetch\<close> receives it. The network is the parameter \<open>fetch\<close> of the
  environment: for a request it gives the response, or the message of the transport failure.
\<close>

datatype body = NoBody | JsonBody string | FormData

record options =
  opt_method :: "string option"
  opt_headers :: "(string \<times> string) list"
  opt_body :: body

record request =
  req_url :: string
  req_method :: string
  req_headers :: "(string \<times> string) list"
  req_body :: body

record env =
  API_BASE_URL :: string
  fetch :: "request \<Rightarrow> string + response"

definition apiRequest ::
    "env \<Rightarrow> browser \<Rightarrow> string \<Rightarrow> options \<Rightarrow> browser \<times> effect list \<times> (js_error + json)" where
  "apiRequest e b endpoint opts =
     (let url = API_BASE_URL e @ endpoint;
          token = getToken b;
          method = toUpperCase (str_or (opt_method opts) ''GET'')
      in if isDemoMode b then
           (b, fst (getMockResponse endpoint), Inr (snd (getMockResponse endpoint)))
         else
           (let headers = opt_headers opts;
                headers1 =
                  (case token of
                     Some t \<Rightarrow>
                       if t \<noteq> [] then AList.update ''Authorization'' (''Bearer '' @ t) headers
                       else headers
                   | None \<Rightarrow> headers);
                headers2 =
                  (if opt_body opts \<noteq> FormData
                   then AList.update ''Content-Type'' ''application/json'' headers1
                   else headers1)
            in case fetch e \<lparr>req_url = url, req_method = method, req_headers = headers2,
                              req_body = opt_body opts\<rparr> of
                 Inl msg \<Rightarrow>
                   (b, [Fetch url],
                    Inl (ApiErr (ApiError (or_str msg ''Network error'') 0
                      (JObj [(''originalError'', JStr msg)]))))
               | Inr resp \<Rightarrow>
                   (case handleResponse b resp of
                      (b', evs, res) \<Rightarrow> (b', Fetch url # evs, res))))"

text \<open>\<open>healthApi.check\<close>: a boolean, and no request at all in demo mode.\<close>

definition health_check :: "env \<Rightarrow> browser \<Rightarrow> browser \<times> effect list \<times> (js_error + json)" where
  "health_check e b =
     (if isDemoMode b then (b, [], Inr (JBool True))
      else
        (let url = API_BASE_URL e @ ''/api/v1/health''
         in case fetch e \<lparr>req_url = url, req_method = ''GET'', req_headers = [],
                           req_body = NoBody\<rparr> of
              Inl msg \<Rightarrow> (b, [Fetch url], Inr (JBool False))
            | Inr resp \<Rightarrow> (b, [Fetch url], Inr (JBool (ok resp)))))"

text \<open>
  The request that \<open>apiRequest\<close> hands to \<open>fetch\<close> outside demo mode, and the one of
  \<open>healthApi.check\<close>, by name.
\<close>

definition request_for :: "env \<Rightarrow> browser \<Rightarrow> string \<Rightarrow> options \<Rightarrow> request" where
  "request_for e b endpoint opts =
     (let headers = opt_headers opts;
          headers1 =
            (case getToken b of
               Some t \<Rightarrow>
                 if t \<noteq> [] then AList.update ''Authorization'' (''Bearer '' @ t) headers
                 else headers
             | None \<Rightarrow> headers);
          headers2 =
            (if opt_body opts \<noteq> FormData
             then AList.update ''Content-Type'' ''application/json'' headers1
             else headers1)
      in \<lparr>req_url = API_BASE_URL e @ endpoint,
          req_method = toUpperCase (str_or (opt_method opts) ''GET''),
          req_headers = headers2, req_body = opt_body opts\<rparr>)"

definition health_request :: "env \<Rightarrow> request" where
  "health_request e =
     \<lparr>req_url = API_BASE_URL e @ ''/api/v1/health'', req_method = ''GET'', req_headers = [],
      req_body = NoBody\<rparr>"

text \<open>\<open>encodeURIComponent\<close>: every byte but the unreserved ones becomes \<open>%XX\<close>.\<close>

definition uri_unreserved :: "char \<Rightarrow> bool" where
  "uri_unreserved c =
     (let n = (of_char c :: nat) in
      (65 \<le> n \<and> n \<le> 90) \<or> (97 \<le> n \<and> n \<le> 122) \<or> (48 \<le> n \<and> n \<le> 57)
      \<or> n = 45 \<or> n = 95 \<or> n = 46 \<or> n = 33 \<or> n = 126 \<or> n = 42 \<or> n = 39 \<or> n = 40 \<or> n = 41)"

definition hex_upper :: "nat \<Rightarrow> char" where
  "hex_upper d = (if d < 10 then char_of (48 + d) else char_of (55 + d))"

definition encode_char :: "char \<Rightarrow> string" where
  "encode_char c =
     (if uri_unreserved c then [c]
      else [CHR ''%'', hex_upper ((of_char c :: nat) div 16), hex_upper ((of_char c :: nat) mod 16)])"

definition encodeURIComponent :: "string \<Rightarrow> string" where
  "encodeURIComponent s = concat (map encode_char s)"

text \<open>
  The methods of the \<open>api\<close> object, with the arguments that reach the path or the body, the
  endpoint each one requests and the options it passes.
\<close>

datatype api_call =
    DashboardGetStats
  | DashboardGetActivity int
  | DashboardGetWeekly
  | KnowledgeGetAll
  | KnowledgeGetCategories
  | KnowledgeGet string
  | KnowledgeSave string string
  | SystemInstructionsGet
  | SystemInstructionsSave string json
  | ContactsGet
  | ContactsSave json json
  | CommunicationGetAll string
  | CommunicationUpdateStatus string string
  | CommunicationDelete string
  | ProjectsGet
  | ProjectsSave json json "json option"
  | ProjectsUploadImage
  | HealthCheck

fun endpoint :: "api_call \<Rightarrow> string" where
  "endpoint DashboardGetStats = ''/api/v1/dashboard/stats''"
| "endpoint (DashboardGetActivity limit) = ''/api/v1/dashboard/activity?limit='' @ show_int limit"
| "endpoint DashboardGetWeekly = ''/api/v1/dashboard/weekly''"
| "endpoint KnowledgeGetAll = ''/api/v1/knowledge''"
| "endpoint KnowledgeGetCategories = ''/api/v1/knowledge/categories''"
| "endpoint (KnowledgeGet category) = ''/api/v1/knowledge/'' @ encodeURIComponent category"
| "endpoint (KnowledgeSave category content) =
     ''/api/v1/knowledge/'' @ encodeURIComponent category @ ''/save''"
| "endpoint SystemInstructionsGet = ''/api/v1/system-instructions''"
| "endpoint (SystemInstructionsSave content msg) = ''/api/v1/system-instructions/save''"
| "endpoint ContactsGet = ''/api/v1/contacts''"
| "endpoint (ContactsSave contact msg) = ''/api/v1/contacts/save''"
| "endpoint (CommunicationGetAll status) =
     (if status \<noteq> [] then ''/api/v1/communication?status='' @ status
      else ''/api/v1/communication'')"
| "endpoint (CommunicationUpdateStatus recordId status) =
     ''/api/v1/communication/'' @ recordId @ ''/status''"
| "endpoint (CommunicationDelete recordId) = ''/api/v1/communication/'' @ recordId"
| "endpoint ProjectsGet = ''/api/v1/projects''"
| "endpoint (ProjectsSave projects msg oldProjects) = ''/api/v1/projects/save''"
| "endpoint ProjectsUploadImage = ''/api/v1/projects/upload-image''"
| "endpoint HealthCheck = ''/api/v1/health''"

definition get_options :: options where
  "get_options = \<lparr>opt_method = None, opt_headers = [], opt_body = NoBody\<rparr>"

definition send_json :: "string \<Rightarrow> json \<Rightarrow> options" where
  "send_json method payload =
     \<lparr>opt_method = Some method, opt_headers = [], opt_body = JsonBody (JSON_stringify payload)\<rparr>"

fun call_options :: "api_call \<Rightarrow> options" where
  "call_options (KnowledgeSave category content) =
     send_json ''POST'' (JObj [(''content'', JStr content)])"
| "call_options (SystemInstructionsSave content msg) =
     send_json ''POST'' (JObj [(''content'', JStr content), (''message'', msg)])"
| "call_options (ContactsSave contact msg) =
     send_json ''POST'' (JObj [(''contact'', contact), (''message'', msg)])"
| "call_options (CommunicationUpdateStatus recordId status) =
     send_json ''PATCH'' (JObj [(''status'', JStr status)])"
| "call_options (CommunicationDelete recordId) =
     \<lparr>opt_method = Some ''DELETE'', opt_headers = [], opt_body = NoBody\<rparr>"
| "call_options (ProjectsSave projects msg oldProjects) =
     send_json ''POST''
       (JObj ([(''projects'', projects), (''message'', msg)] @
          (case oldProjects of
             Some old \<Rightarrow> if truthy old then [(''oldProjects'', old)] else []
           | None \<Rightarrow> [])))"
| "call_options ProjectsUploadImage =
     \<lparr>opt_method = Some ''POST'', opt_headers = [], opt_body = FormData\<rparr>"
| "call_options c = get_options"

definition perform :: "env \<Rightarrow> browser \<Rightarrow> api_call \<Rightarrow> browser \<times> effect list \<times> (js_error + json)" where
  "perform e b c =
     (if c = HealthCheck then health_check e b
      else apiRequest e b (endpoint c) (call_options c))"

text \<open>The endpoint groups and the canned payload documented for each.\<close>

datatype endpoint_group =
    Stats | Activity | Weekly | Knowledge | SystemInstructions | Projects | Contacts
  | Communication | Health

fun group_of :: "api_call \<Rightarrow> endpoint_group" where
  "group_of DashboardGetStats = Stats"
| "group_of (DashboardGetActivity limit) = Activity"
| "group_of DashboardGetWeekly = Weekly"
| "group_of KnowledgeGetAll = Knowledge"
| "group_of KnowledgeGetCategories = Knowledge"
| "group_of (KnowledgeGet category) = Knowledge"
| "group_of (KnowledgeSave category content) = Knowledge"
| "group_of SystemInstructionsGet = SystemInstructions"
| "group_of (SystemInstructionsSave content msg) = SystemInstructions"
| "group_of ContactsGet = Contacts"
| "group_of (ContactsSave contact msg) = Contacts"
| "group_of (CommunicationGetAll status) = Communication"
| "group_of (CommunicationUpdateStatus recordId status) = Communication"
| "group_of (CommunicationDelete recordId) = Communication"
| "group_of ProjectsGet = Projects"
| "group_of (ProjectsSave projects msg oldProjects) = Projects"
| "group_of ProjectsUploadImage = Projects"
| "group_of HealthCheck = Health"

fun canned :: "endpoint_group \<Rightarrow> json" where
  "canned Stats = success [(''stats'', JObj [(''total_queries'', JNum 0)])]"
| "canned Activity = success [(''activity'', JArr [])]"
| "canned Weekly = success [(''weekly'', JArr [])]"
| "canned Knowledge = success [(''categories'', JObj [])]"
| "canned SystemInstructions = success [(''content'', JStr [])]"
| "canned Projects = success [(''projects'', JArr [])]"
| "canned Contacts = success [(''contact'', JObj [(''email'', JStr []), (''socials'', JObj [])])]"
| "canned Communication = success [(''records'', JArr []), (''count'', JNum 0)]"
| "canned Health = JBool True"

text \<open>
  A path argument that cannot be mistaken for the marker of another group: it has no
  \<open>/\<close>, and a record id does not begin with the name of a group that \<open>getMockResponse\<close>
  looks for before \<open>/communication\<close>.
\<close>

definition no_slash :: "string \<Rightarrow> bool" where
  "no_slash s = (CHR ''/'' \<notin> set s)"

definition plain_record_id :: "string \<Rightarrow> bool" where
  "plain_record_id s =
     (no_slash s \<and> \<not> startsWith s ''knowledge'' \<and> \<not> startsWith s ''system-instructions''
      \<and> \<not> startsWith s ''projects'' \<and> \<not> startsWith s ''contacts'')"

fun plain_arguments :: "api_call \<Rightarrow> bool" where
  "plain_arguments (CommunicationGetAll status) = no_slash status"
| "plain_arguments (CommunicationUpdateStatus recordId status) = plain_record_id recordId"
| "plain_arguments (CommunicationDelete recordId) = plain_record_id recordId"
| "plain_arguments c = True"


section \<open>Error classification\<close>

text \<open>
  Claim C6. For every API error: \<open>isAuthError\<close> holds exactly for status 401 and 403,
  \<open>isServerError\<close> exactly for a status of at least 500, \<open>isNetworkError\<close> exactly for
  status 0; no two of the three hold together; and errors built with status 401, 503 and 0
  are an auth error, a server error and a network error.
\<close>

theorem api_error_classification:
  "isAuthError e = (err_status e = 401 \<or> err_status e = 403)
   \<and> isServerError e = (500 \<le> err_status e)
   \<and> isNetworkError e = (err_status e = 0)
   \<and> \<not> (isAuthError e \<and> isServerError e)
   \<and> \<not> (isAuthError e \<and> isNetworkError e)
   \<and> \<not> (isServerError e \<and> isNetworkError e)
   \<and> isAuthError (ApiError m 401 d)
   \<and> isServerError (ApiError m 503 d)
   \<and> isNetworkError (ApiError m 0 d)"
  by (auto simp: isAuthError_def isServerError_def isNetworkError_def ApiError_def)

section \<open>Session teardown and token refresh\<close>

lemma getItem_removeItem:
  "getItem (removeItem st k) k' = (if k' = k then None else getItem st k')"
  by (simp add: getItem_def removeItem_def delete_conv')

lemma getItem_setItem:
  "setItem st k v = Inr st' \<Longrightarrow> getItem st' k' = (if k' = k then Some v else getItem st k')"
  by (auto simp: getItem_def setItem_def update_conv' split: if_splits)

lemma handleTokenRefresh_fits:
  "refresh_fits b r \<Longrightarrow>
     \<exists>s. handleTokenRefresh b r = Inr (b\<lparr>sessionStorage := s\<rparr>)"
  by (auto simp: refresh_fits_def handleTokenRefresh_def setItem_def split: option.splits
      intro: exI [of _ "sessionStorage b"])

text \<open>
  Claim C7, as the code has it. For every starting state of the two storages, \<open>logout()\<close>
  removes the token and the user info from the tab-scoped storage and the \<open>admin_session\<close>
  entry from the persistent storage, and makes no network call (it has no effect besides
  the storage). It leaves a token under \<open>admin_token\<close> in the persistent storage where it
  is: afterwards \<open>isLoggedIn()\<close> is false exactly when the persistent storage holds no
  non-empty token there, so always when the token was only in the tab-scoped storage.
\<close>

theorem logout_clears_tab_storage:
  "getItem (sessionStorage (fst (logout b))) TOKEN_STORAGE_KEY = None
   \<and> getItem (sessionStorage (fst (logout b))) ''admin_user_info'' = None
   \<and> getItem (localStorage (fst (logout b))) ''admin_session'' = None
   \<and> getItem (localStorage (fst (logout b))) TOKEN_STORAGE_KEY = getItem (localStorage b) TOKEN_STORAGE_KEY
   \<and> fst (snd (logout b)) = []
   \<and> isLoggedIn (fst (logout b)) =
       (case getItem (localStorage b) TOKEN_STORAGE_KEY of Some t \<Rightarrow> t \<noteq> [] | None \<Rightarrow> False)"
  by (simp add: logout_def isLoggedIn_def getToken_def or_null_def getItem_removeItem
      TOKEN_STORAGE_KEY_def split: option.splits)

text \<open>
  With a token in both storages, \<open>logout()\<close> leaves the client logged in on the persistent
  one.
\<close>

theorem logout_keeps_persistent_token:
  "isLoggedIn (fst (logout
     \<lparr>sessionStorage = \<lparr>items = [(''admin_token'', ''t1'')], quota = 1000\<rparr>,
      localStorage = \<lparr>items = [(''admin_token'', ''t0'')], quota = 1000\<rparr>\<rparr>))"
  by (simp add: logout_def isLoggedIn_def getToken_def or_null_def getItem_def removeItem_def
      TOKEN_STORAGE_KEY_def)

lemma first_error_all:
  "(\<And>x. x \<in> set xs \<Longrightarrow> \<exists>y. x = Inr y) \<Longrightarrow> \<exists>ys. first_error xs = Inr ys"
proof (induction xs)
  case Nil
  then show ?case by simp
next
  case (Cons x xs)
  obtain y where y: "x = Inr y"
    using Cons.prems [of x] by auto
  obtain ys where "first_error xs = Inr ys"
    using Cons by auto
  then show ?case
    using y by simp
qed

lemma ToString_printable: "printable v \<Longrightarrow> \<exists>s. ToString v = Inr s"
proof (induction v)
  case (JArr vs)
  have "\<exists>ys. first_error (map (\<lambda>v. if v = JNull then Inr [] else ToString v) vs) = Inr ys"
  proof (rule first_error_all)
    fix x
    assume "x \<in> set (map (\<lambda>v. if v = JNull then Inr [] else ToString v) vs)"
    then obtain v where v: "v \<in> set vs" "x = (if v = JNull then Inr [] else ToString v)"
      by auto
    then have "\<exists>s. ToString v = Inr s"
      using JArr by simp
    then show "\<exists>y. x = Inr y"
      using v by auto
  qed
  then show ?case
    by auto
qed simp_all

lemma error_readable_built:
  assumes "error_readable r"
  shows "\<exists>detail m. get_prop (errorData_of r) ''detail'' = Inr detail
           \<and> new_ApiError (or_json detail (JStr h)) status (errorData_of r)
               = Inr (ApiError m status (errorData_of r))"
proof -
  obtain detail where d: "get_prop (errorData_of r) ''detail'' = Inr detail"
    using assms by (cases "get_prop (errorData_of r) ''detail''") (simp_all add: error_readable_def)
  have "printable (or_json detail (JStr h))"
    using assms d by (cases detail) (simp_all add: error_readable_def or_json_def)
  then obtain m where "ToString (or_json detail (JStr h)) = Inr m"
    using ToString_printable by blast
  then show ?thesis
    using d by (auto simp add: new_ApiError_def)
qed

lemma apiRequest_live:
  "\<not> isDemoMode b \<Longrightarrow>
     apiRequest e b ep opts =
       (case fetch e (request_for e b ep opts) of
          Inl msg \<Rightarrow>
            (b, [Fetch (API_BASE_URL e @ ep)],
             Inl (ApiErr (ApiError (or_str msg ''Network error'') 0
               (JObj [(''originalError'', JStr msg)]))))
        | Inr resp \<Rightarrow>
            (case handleResponse b resp of
               (b', evs, res) \<Rightarrow> (b', Fetch (API_BASE_URL e @ ep) # evs, res)))"
  by (simp add: apiRequest_def request_for_def Let_def)

lemma handleResponse_unauthorized:
  assumes "resp_status r = 401" and "handleTokenRefresh b r = Inr b1"
  shows "fst (handleResponse b r) =
           b1\<lparr>sessionStorage :=
                removeItem (removeItem (sessionStorage b1) TOKEN_STORAGE_KEY) ''admin_user_info''\<rparr>
       \<and> fst (snd (handleResponse b r)) = [DispatchEvent ''auth:expired'' None]"
  using assms by (simp add: handleResponse_def ok_def Let_def split: sum.splits)

lemma handleResponse_other:
  assumes "resp_status r \<noteq> 401" and "handleTokenRefresh b r = Inr b1"
  shows "fst (handleResponse b r) = b1"
  using assms by (simp add: handleResponse_def Let_def split: sum.splits option.splits)

lemma health_check_live:
  "\<not> isDemoMode b \<Longrightarrow> fetch e (health_request e) = Inr r \<Longrightarrow>
     health_check e b = (b, [Fetch (API_BASE_URL e @ ''/api/v1/health'')], Inr (JBool (ok r)))"
  by (simp add: health_check_def health_request_def Let_def)

text \<open>
  Claim C2, as the code has it. Outside demo mode, for every request that \<open>apiRequest\<close>
  sends and whose response has status 401, is readable (its body is not the JSON literal
  \<open>null\<close> and its \<open>detail\<close> is no object with a member named \<open>toString\<close> and no array
  that holds one) and carries, if any, a replacement token that fits the quota: the client
  removes the token and the user info from the tab-scoped storage, leaves the persistent
  storage as it was, dispatches \<open>auth:expired\<close> once after the request and throws the
  \<open>ApiError\<close> with status 401 and the body as its data. Afterwards \<open>isLoggedIn()\<close> is
  false exactly when the persistent storage holds no non-empty token. The health check,
  which calls \<open>fetch\<close> itself, answers \<open>false\<close> to a 401 and does none of this.
\<close>

theorem unauthorized_clears_tab_storage:
  assumes "\<not> isDemoMode b" and "resp_status r = 401" and "error_readable r"
    and "refresh_fits b r"
  shows "(fetch e (request_for e b ep opts) = Inr r \<longrightarrow>
            getItem (sessionStorage (fst (apiRequest e b ep opts))) TOKEN_STORAGE_KEY = None
          \<and> getItem (sessionStorage (fst (apiRequest e b ep opts))) ''admin_user_info'' = None
          \<and> localStorage (fst (apiRequest e b ep opts)) = localStorage b
          \<and> fst (snd (apiRequest e b ep opts))
              = [Fetch (API_BASE_URL e @ ep), DispatchEvent ''auth:expired'' None]
          \<and> (\<exists>m. snd (snd (apiRequest e b ep opts))
                    = Inl (ApiErr (ApiError m 401 (errorData_of r))))
          \<and> isLoggedIn (fst (apiRequest e b ep opts)) =
              (case getItem (localStorage b) TOKEN_STORAGE_KEY of
                 Some t \<Rightarrow> t \<noteq> [] | None \<Rightarrow> False))
       \<and> (fetch e (health_request e) = Inr r \<longrightarrow>
            health_check e b
              = (b, [Fetch (API_BASE_URL e @ ''/api/v1/health'')], Inr (JBool False)))"
proof (intro conjI impI)
  assume f: "fetch e (health_request e) = Inr r"
  show "health_check e b
      = (b, [Fetch (API_BASE_URL e @ ''/api/v1/health'')], Inr (JBool False))"
    using health_check_live [OF assms(1) f] assms(2) by (simp add: ok_def)
next
  assume f: "fetch e (request_for e b ep opts) = Inr r"
  obtain s where s: "handleTokenRefresh b r = Inr (b\<lparr>sessionStorage := s\<rparr>)"
    using handleTokenRefresh_fits [OF assms(4)] by blast
  obtain detail m where d: "get_prop (errorData_of r) ''detail'' = Inr detail"
    and m: "new_ApiError (or_json detail (JStr (''HTTP '' @ show_int 401))) 401 (errorData_of r)
              = Inr (ApiError m 401 (errorData_of r))"
    using error_readable_built [OF assms(3)] by blast
  have nok: "\<not> ok r"
    using assms(2) by (simp add: ok_def)
  have hr: "handleResponse b r =
      (b\<lparr>sessionStorage := removeItem (removeItem s TOKEN_STORAGE_KEY) ''admin_user_info''\<rparr>,
       [DispatchEvent ''auth:expired'' None],
       Inl (ApiErr (ApiError m 401 (errorData_of r))))"
    using s d m nok assms(2) by (simp add: handleResponse_def)
  have ar: "apiRequest e b ep opts =
      (b\<lparr>sessionStorage := removeItem (removeItem s TOKEN_STORAGE_KEY) ''admin_user_info''\<rparr>,
       [Fetch (API_BASE_URL e @ ep), DispatchEvent ''auth:expired'' None],
       Inl (ApiErr (ApiError m 401 (errorData_of r))))"
    using apiRequest_live [OF assms(1), of e ep opts] f hr by simp
  show "getItem (sessionStorage (fst (apiRequest e b ep opts))) TOKEN_STORAGE_KEY = None"
    unfolding ar by (simp add: getItem_removeItem TOKEN_STORAGE_KEY_def)
  show "getItem (sessionStorage (fst (apiRequest e b ep opts))) ''admin_user_info'' = None"
    unfolding ar by (simp add: getItem_removeItem)
  show "localStorage (fst (apiRequest e b ep opts)) = localStorage b"
    unfolding ar by simp
  show "fst (snd (apiRequest e b ep opts))
      = [Fetch (API_BASE_URL e @ ep), DispatchEvent ''auth:expired'' None]"
    unfolding ar by simp
  show "\<exists>m. snd (snd (apiRequest e b ep opts)) = Inl (ApiErr (ApiError m 401 (errorData_of r)))"
    unfolding ar by auto
  show "isLoggedIn (fst (apiRequest e b ep opts)) =
      (case getItem (localStorage b) TOKEN_STORAGE_KEY of Some t \<Rightarrow> t \<noteq> [] | None \<Rightarrow> False)"
    unfolding ar
    by (simp add: isLoggedIn_def getToken_def or_null_def getItem_removeItem
        TOKEN_STORAGE_KEY_def split: option.splits)
qed

text \<open>
  An expired session whose token is in the tab-scoped storage, on a request for the
  projects and on the health check.
\<close>

theorem unauthorized_clears_tab_storage_witness:
  "apiRequest
     \<lparr>API_BASE_URL = ''http://localhost:8000'',
      fetch = (\<lambda>q. Inr \<lparr>resp_status = 401, x_new_token = None,
                          resp_body = Some (JObj [(''detail'', JStr ''Token expired'')])\<rparr>)\<rparr>
     \<lparr>sessionStorage =
        \<lparr>items = [(''admin_token'', ''t1''), (''admin_user_info'', ''{}'')], quota = 1000\<rparr>,
      localStorage = \<lparr>items = [], quota = 1000\<rparr>\<rparr>
     ''/api/v1/projects'' get_options
   = (\<lparr>sessionStorage = \<lparr>items = [], quota = 1000\<rparr>,
       localStorage = \<lparr>items = [], quota = 1000\<rparr>\<rparr>,
      [Fetch ''http://localhost:8000/api/v1/projects'', DispatchEvent ''auth:expired'' None],
      Inl (ApiErr (ApiError ''Token expired'' 401
        (JObj [(''detail'', JStr ''Token expired'')]))))
   \<and> \<not> isLoggedIn (fst (apiRequest
       \<lparr>API_BASE_URL = ''http://localhost:8000'',
        fetch = (\<lambda>q. Inr \<lparr>resp_status = 401, x_new_token = None,
                            resp_body = Some (JObj [(''detail'', JStr ''Token expired'')])\<rparr>)\<rparr>
       \<lparr>sessionStorage =
          \<lparr>items = [(''admin_token'', ''t1''), (''admin_user_info'', ''{}'')], quota = 1000\<rparr>,
        localStorage = \<lparr>items = [], quota = 1000\<rparr>\<rparr>
       ''/api/v1/projects'' get_options))
   \<and> health_check
       \<lparr>API_BASE_URL = ''http://localhost:8000'',
        fetch = (\<lambda>q. Inr \<lparr>resp_status = 401, x_new_token = None,
                            resp_body = Some (JObj [(''detail'', JStr ''Token expired'')])\<rparr>)\<rparr>
       \<lparr>sessionStorage =
          \<lparr>items = [(''admin_token'', ''t1''), (''admin_user_info'', ''{}'')], quota = 1000\<rparr>,
        localStorage = \<lparr>items = [], quota = 1000\<rparr>\<rparr>
     = (\<lparr>sessionStorage =
          \<lparr>items = [(''admin_token'', ''t1''), (''admin_user_info'', ''{}'')], quota = 1000\<rparr>,
         localStorage = \<lparr>items = [], quota = 1000\<rparr>\<rparr>,
        [Fetch ''http://localhost:8000/api/v1/health''], Inr (JBool False))"
  using unauthorized_clears_tab_storage [of
      "\<lparr>sessionStorage =
          \<lparr>items = [(''admin_token'', ''t1''), (''admin_user_info'', ''{}'')], quota = 1000\<rparr>,
        localStorage = \<lparr>items = [], quota = 1000\<rparr>\<rparr>"
      "\<lparr>resp_status = 401, x_new_token = None,
        resp_body = Some (JObj [(''detail'', JStr ''Token expired'')])\<rparr>"
      "\<lparr>API_BASE_URL = ''http://localhost:8000'',
        fetch = (\<lambda>q. Inr \<lparr>resp_status = 401, x_new_token = None,
                            resp_body = Some (JObj [(''detail'', JStr ''Token expired'')])\<rparr>)\<rparr>"
      "''/api/v1/projects''" get_options]
  by (simp add: isDemoMode_def getToken_def or_null_def getItem_def TOKEN_STORAGE_KEY_def
      error_readable_def errorData_of_def refresh_fits_def apiRequest_def Let_def
      handleResponse_def handleTokenRefresh_def ok_def removeItem_def or_json_def
      new_ApiError_def isLoggedIn_def)

text \<open>
  With the token in the persistent storage only, the client is still logged in after the
  401 has been handled.
\<close>

theorem unauthorized_keeps_persistent_token:
  "isLoggedIn (fst (apiRequest
       \<lparr>API_BASE_URL = ''http://localhost:8000'',
        fetch = (\<lambda>q. Inr \<lparr>resp_status = 401, x_new_token = None,
                            resp_body = Some (JObj [(''detail'', JStr ''Token expired'')])\<rparr>)\<rparr>
       \<lparr>sessionStorage = \<lparr>items = [], quota = 1000\<rparr>,
        localStorage = \<lparr>items = [(''admin_token'', ''t0'')], quota = 1000\<rparr>\<rparr>
       ''/api/v1/projects'' get_options))"
  by (simp add: apiRequest_def Let_def isDemoMode_def handleResponse_def handleTokenRefresh_def
      ok_def isLoggedIn_def getToken_def or_null_def getItem_def removeItem_def
      TOKEN_STORAGE_KEY_def errorData_of_def or_json_def new_ApiError_def)

text \<open>
  Claim C8, as the code has it. For every response that carries a non-empty replacement
  token that fits the quota of the tab-scoped storage: the store writes the token there,
  in the place of the one the tab-scoped storage held, and right after the store it is the
  token that is resolved; the persistent storage is not touched, so a prior token held
  there stays, shadowed by the new one. The store runs on the responses to the requests
  that \<open>apiRequest\<close> sends outside demo mode: when such a request settles, the new token is
  the resolved one unless the status is 401, where the handling of the 401 has removed it
  from the tab-scoped storage again. The health check reads no header and stores nothing.
\<close>

theorem token_refresh_stores_new_token:
  assumes "\<not> isDemoMode b" and "x_new_token r = Some t" and "t \<noteq> []"
    and "accepts (sessionStorage b) TOKEN_STORAGE_KEY t"
  shows "(\<exists>b'. handleTokenRefresh b r = Inr b'
            \<and> getToken b' = Some t
            \<and> getItem (sessionStorage b') TOKEN_STORAGE_KEY = Some t
            \<and> localStorage b' = localStorage b)
       \<and> (fetch e (request_for e b ep opts) = Inr r \<and> resp_status r \<noteq> 401 \<longrightarrow>
            getToken (fst (apiRequest e b ep opts)) = Some t
          \<and> getItem (sessionStorage (fst (apiRequest e b ep opts))) TOKEN_STORAGE_KEY = Some t
          \<and> localStorage (fst (apiRequest e b ep opts)) = localStorage b)
       \<and> (fetch e (request_for e b ep opts) = Inr r \<and> resp_status r = 401 \<longrightarrow>
            getItem (sessionStorage (fst (apiRequest e b ep opts))) TOKEN_STORAGE_KEY = None
          \<and> getToken (fst (apiRequest e b ep opts))
              = or_null None (getItem (localStorage b) TOKEN_STORAGE_KEY)
          \<and> localStorage (fst (apiRequest e b ep opts)) = localStorage b)
       \<and> (fetch e (health_request e) = Inr r \<longrightarrow> fst (health_check e b) = b)"
proof -
  define b1 where
    "b1 = b\<lparr>sessionStorage :=
              (sessionStorage b)\<lparr>items := AList.update TOKEN_STORAGE_KEY t (items (sessionStorage b))\<rparr>\<rparr>"
  have h: "handleTokenRefresh b r = Inr b1"
    using assms by (simp add: handleTokenRefresh_def setItem_def b1_def)
  have g: "getItem (sessionStorage b1) TOKEN_STORAGE_KEY = Some t"
    by (simp add: b1_def getItem_def update_conv')
  have t: "getToken b1 = Some t"
    using g assms(3) by (simp add: getToken_def or_null_def)
  have l: "localStorage b1 = localStorage b"
    by (simp add: b1_def)
  have settle: "fst (apiRequest e b ep opts) = fst (handleResponse b r)"
    if "fetch e (request_for e b ep opts) = Inr r"
    using apiRequest_live [OF assms(1), of e ep opts] that by (simp split: prod.splits)
  show ?thesis
  proof (intro conjI impI)
    show "\<exists>b'. handleTokenRefresh b r = Inr b'
        \<and> getToken b' = Some t
        \<and> getItem (sessionStorage b') TOKEN_STORAGE_KEY = Some t
        \<and> localStorage b' = localStorage b"
      using h g t l by simp
  next
    assume a: "fetch e (request_for e b ep opts) = Inr r \<and> resp_status r \<noteq> 401"
    then have "fst (apiRequest e b ep opts) = b1"
      using settle handleResponse_other [OF _ h] by simp
    then show "getToken (fst (apiRequest e b ep opts)) = Some t"
      and "getItem (sessionStorage (fst (apiRequest e b ep opts))) TOKEN_STORAGE_KEY = Some t"
      and "localStorage (fst (apiRequest e b ep opts)) = localStorage b"
      using g t l by simp_all
  next
    assume a: "fetch e (request_for e b ep opts) = Inr r \<and> resp_status r = 401"
    then have ar: "fst (apiRequest e b ep opts) =
        b1\<lparr>sessionStorage :=
             removeItem (removeItem (sessionStorage b1) TOKEN_STORAGE_KEY) ''admin_user_info''\<rparr>"
      using settle handleResponse_unauthorized [OF _ h] by simp
    show "getItem (sessionStorage (fst (apiRequest e b ep opts))) TOKEN_STORAGE_KEY = None"
      unfolding ar by (simp add: getItem_removeItem TOKEN_STORAGE_KEY_def)
    show "getToken (fst (apiRequest e b ep opts))
        = or_null None (getItem (localStorage b) TOKEN_STORAGE_KEY)"
      unfolding ar
      by (simp add: getToken_def getItem_removeItem l TOKEN_STORAGE_KEY_def)
    show "localStorage (fst (apiRequest e b ep opts)) = localStorage b"
      unfolding ar by (simp add: l)
  next
    assume "fetch e (health_request e) = Inr r"
    then show "fst (health_check e b) = b"
      using health_check_live [OF assms(1)] by simp
  qed
qed

text \<open>
  A refresh over a token held in the tab-scoped storage: on a response with status 200,
  and on one with status 401.
\<close>

theorem token_refresh_stores_new_token_witness:
  "getToken (fst (apiRequest
       \<lparr>API_BASE_URL = ''http://localhost:8000'',
        fetch = (\<lambda>q. Inr \<lparr>resp_status = 200, x_new_token = Some ''new'',
                            resp_body = Some (JObj [])\<rparr>)\<rparr>
       \<lparr>sessionStorage = \<lparr>items = [(''admin_token'', ''old'')], quota = 1000\<rparr>,
        localStorage = \<lparr>items = [], quota = 1000\<rparr>\<rparr>
       ''/api/v1/projects'' get_options)) = Some ''new''
   \<and> getToken (fst (apiRequest
       \<lparr>API_BASE_URL = ''http://localhost:8000'',
        fetch = (\<lambda>q. Inr \<lparr>resp_status = 401, x_new_token = Some ''new'',
                            resp_body = Some (JObj [])\<rparr>)\<rparr>
       \<lparr>sessionStorage = \<lparr>items = [(''admin_token'', ''old'')], quota = 1000\<rparr>,
        localStorage = \<lparr>items = [], quota = 1000\<rparr>\<rparr>
       ''/api/v1/projects'' get_options)) = None"
  using token_refresh_stores_new_token [of
      "\<lparr>sessionStorage = \<lparr>items = [(''admin_token'', ''old'')], quota = 1000\<rparr>,
        localStorage = \<lparr>items = [], quota = 1000\<rparr>\<rparr>"
      "\<lparr>resp_status = 200, x_new_token = Some ''new'', resp_body = Some (JObj [])\<rparr>" "''new''"
      "\<lparr>API_BASE_URL = ''http://localhost:8000'',
        fetch = (\<lambda>q. Inr \<lparr>resp_status = 200, x_new_token = Some ''new'',
                            resp_body = Some (JObj [])\<rparr>)\<rparr>"
      "''/api/v1/projects''" get_options]
    token_refresh_stores_new_token [of
      "\<lparr>sessionStorage = \<lparr>items = [(''admin_token'', ''old'')], quota = 1000\<rparr>,
        localStorage = \<lparr>items = [], quota = 1000\<rparr>\<rparr>"
      "\<lparr>resp_status = 401, x_new_token = Some ''new'', resp_body = Some (JObj [])\<rparr>" "''new''"
      "\<lparr>API_BASE_URL = ''http://localhost:8000'',
        fetch = (\<lambda>q. Inr \<lparr>resp_status = 401, x_new_token = Some ''new'',
                            resp_body = Some (JObj [])\<rparr>)\<rparr>"
      "''/api/v1/projects''" get_options]
  by (simp add: isDemoMode_def getToken_def or_null_def getItem_def accepts_def usage_def
      TOKEN_STORAGE_KEY_def)

text \<open>
  A prior token that was resolved from the persistent storage is still stored there after
  the refresh.
\<close>

theorem token_refresh_keeps_persistent_token:
  "getToken \<lparr>sessionStorage = \<lparr>items = [], quota = 1000\<rparr>,
             localStorage = \<lparr>items = [(''admin_token'', ''old'')], quota = 1000\<rparr>\<rparr> = Some ''old''
   \<and> (\<exists>b'. handleTokenRefresh
          \<lparr>sessionStorage = \<lparr>items = [], quota = 1000\<rparr>,
           localStorage = \<lparr>items = [(''admin_token'', ''old'')], quota = 1000\<rparr>\<rparr>
          \<lparr>resp_status = 200, x_new_token = Some ''new'', resp_body = Some JNull\<rparr> = Inr b'
        \<and> getItem (localStorage b') TOKEN_STORAGE_KEY = Some ''old'')"
  by (simp add: handleTokenRefresh_def setItem_def accepts_def usage_def getToken_def or_null_def
      getItem_def TOKEN_STORAGE_KEY_def)

section \<open>The queue follows its specification\<close>

lemma addToast_entry: "fst (addToast gen p q) = q @ [spec_entry gen p]"
  by (simp add: addToast_def spec_entry_def spread_def pick_def str_or_def num_or_def
      bulk_or_null_def or_str_def Let_def split: option.splits)

lemma addToast_returns: "snd (addToast gen p q) = str_or (p_id p) gen"
  by (simp add: addToast_def Let_def)

lemma updateToast_queue: "fst (updateToast i u q) = spec_update i u q"
  by (simp add: updateToast_def spec_update_def update_entry_def Let_def)

lemma step_queue: "fst (step q x) = fst (spec_step q x)"
  by (cases x)
    (simp_all add: addToast_entry spec_add_def updateToast_queue removeToast_def spec_remove_def
      showSuccess_def showError_def)

lemma step_returns: "id_usable x \<Longrightarrow> snd (step q x) = snd (spec_step q x)"
  by (cases x)
    (auto simp: addToast_returns spec_add_def spec_entry_def str_or_def or_str_def pick_def
      split: option.splits)

lemma run_queue: "fst (run step q xs) = fst (run spec_step q xs)"
  by (induction xs arbitrary: q) (simp_all add: step_queue)

lemma run_returns:
  "\<forall>x\<in>set xs. id_usable x \<Longrightarrow> snd (run step q xs) = snd (run spec_step q xs)"
  by (induction xs arbitrary: q) (simp_all add: step_queue step_returns)

lemma pick_later: "pick (case b of Some x \<Rightarrow> Some x | None \<Rightarrow> a) v = pick b (pick a v)"
  by (simp add: pick_def split: option.splits)

lemma spread_later: "spread (spread t a) b = spread t (later a b)"
  by (simp add: spread_def later_def pick_later)

lemma update_absent: "i \<notin> tid ` set q \<Longrightarrow> updateToast i u q = (q, [])"
  by (induction q) (auto simp: updateToast_def update_entry_def)

lemma remove_absent: "i \<notin> tid ` set q \<Longrightarrow> removeToast i q = q"
  by (induction q) (auto simp: removeToast_def)

lemma startsWith_append: "startsWith s (p @ r) \<Longrightarrow> startsWith s p"
  by (induction s p rule: startsWith.induct) auto

lemma includes_str_append: "includes_str s (p @ r) \<Longrightarrow> includes_str s p"
proof (induction s)
  case Nil
  then show ?case by simp
next
  case (Cons c cs)
  then show ?case
    using startsWith_append [of "c # cs" p r] by auto
qed

lemma includes_uploading: "includes_str s ''uploading'' \<Longrightarrow> includes_str s ''upload''"
  using includes_str_append [of s "''upload''" "''ing''"] by simp

lemma completes_iff:
  "completes t u = (p_status u = Some ''complete'' \<and> tstatus t \<noteq> ''complete'')"
  by (auto simp: completes_def spread_def pick_def split: option.splits)

lemma or_str_lower: "or_str (toLowerCase a) [] = toLowerCase a"
  by (simp add: or_str_def)

lemma update_entry_events:
  "tid t = i \<Longrightarrow> snd (update_entry i u t) = broadcast_of t u"
proof -
  assume i: "tid t = i"
  define s where "s = or_str (ttype t) (toLowerCase (action t))"
  have up: "includes_str s ''uploading'' \<Longrightarrow> includes_str s ''upload''"
    by (rule includes_uploading)
  have m: "(if includes_str s ''upload'' \<or> includes_str s ''uploading''
                      then [data_changed ''upload'']
                      else if includes_str s ''archive'' \<or> includes_str s ''archiving''
                      then [data_changed ''archive'']
                      else if includes_str s ''restore'' \<or> includes_str s ''restoring''
                      then [data_changed ''restore'']
                      else if includes_str s ''delete'' \<or> includes_str s ''deleting''
                      then [data_changed ''delete'']
                      else []) = (case matched_category s of
           Some c \<Rightarrow> [data_changed c]
         | None \<Rightarrow> [])"
    unfolding matched_category_def using up by (simp only: if_distrib [of "case_option _ _"] option.case) simp
  show ?thesis
    unfolding update_entry_def broadcast_of_def completes_iff Let_def or_str_lower
      s_def [symmetric] m using i by simp
qed

lemma update_entry_other: "tid t \<noteq> i \<Longrightarrow> update_entry i u t = (t, [])"
  by (simp add: update_entry_def)

lemma updateToast_events:
  "distinct (map tid q) \<Longrightarrow> t \<in> set q \<Longrightarrow> tid t = i \<Longrightarrow>
     snd (updateToast i u q) = broadcast_of t u"
proof (induction q)
  case Nil
  then show ?case by simp
next
  case (Cons x xs)
  show ?case
  proof (cases "x = t")
    case True
    then have "i \<notin> tid ` set xs"
      using Cons.prems by auto
    then have "snd (updateToast i u xs) = []"
      by (simp add: update_absent)
    then show ?thesis
      using True Cons.prems(3) update_entry_events [of t i u]
      by (simp add: updateToast_def)
  next
    case False
    then have "t \<in> set xs" "tid x \<noteq> i"
      using Cons.prems by auto
    then show ?thesis
      using Cons by (simp add: updateToast_def update_entry_other)
  qed
qed

text \<open>
  The entries of a run. For every finite sequence of operations from the empty queue, the
  list of entries the code produces is the one the specification describes: each
  operation applied left to right, where \<open>add\<close> appends one entry with the defaults for
  the fields the partial entry does not set, \<open>update\<close> shallow-merges the partial fields
  into the entries with that id and \<open>remove\<close> deletes them. \<open>add\<close> returns the id of the
  entry it appended whenever the partial entry carries no id or a non-empty one. \<open>update\<close>
  and \<open>remove\<close> on an id that is not in the queue leave the queue unchanged. Two merges
  in a row are the merge of the two partial updates with the later one winning field by
  field.
\<close>

theorem queue_follows_specification:
  "fst (run step [] ops) = fst (run spec_step [] ops)
   \<and> ((\<forall>x\<in>set ops. id_usable x) \<longrightarrow> snd (run step [] ops) = snd (run spec_step [] ops))
   \<and> (i \<notin> tid ` set q \<longrightarrow> fst (updateToast i u q) = q \<and> removeToast i q = q)
   \<and> spread (spread t a) b = spread t (later a b)"
  using run_queue [of "[]" ops] run_returns [of ops "[]"] update_absent [of i q u]
    remove_absent [of i q] spread_later [of t a b]
  by simp

text \<open>A run with a generated id, a supplied id, an update and a removal.\<close>

theorem queue_follows_specification_witness:
  "snd (run step []
      [Add ''g1'' (no_fields\<lparr>p_title := Some ''Upload''\<rparr>),
       Update ''g1'' (no_fields\<lparr>p_progress := Some 40\<rparr>),
       Add ''g2'' (no_fields\<lparr>p_id := Some ''mine''\<rparr>),
       Remove ''g1''])
   = snd (run spec_step []
      [Add ''g1'' (no_fields\<lparr>p_title := Some ''Upload''\<rparr>),
       Update ''g1'' (no_fields\<lparr>p_progress := Some 40\<rparr>),
       Add ''g2'' (no_fields\<lparr>p_id := Some ''mine''\<rparr>),
       Remove ''g1''])
   \<and> fst (updateToast ''g3'' (no_fields\<lparr>p_progress := Some 40\<rparr>) (fst (spec_add ''g1'' no_fields []))) = fst (spec_add ''g1'' no_fields [])
   \<and> removeToast ''g3'' (fst (spec_add ''g1'' no_fields [])) = fst (spec_add ''g1'' no_fields [])"
  using queue_follows_specification [of
      "[Add ''g1'' (no_fields\<lparr>p_title := Some ''Upload''\<rparr>),
       Update ''g1'' (no_fields\<lparr>p_progress := Some 40\<rparr>),
       Add ''g2'' (no_fields\<lparr>p_id := Some ''mine''\<rparr>),
       Remove ''g1'']" "''g3''" "fst (spec_add ''g1'' no_fields [])" "no_fields\<lparr>p_progress := Some 40\<rparr>"]
  by (simp add: no_fields_def spec_add_def spec_entry_def pick_def)

text \<open>
  Claim C1 fails on the id that \<open>add\<close> returns. \<open>addToast\<close> computes
  \<open>toast.id || <generated id>\<close>, stores it in the new entry and returns it, but the
  trailing \<open>...toast\<close> then writes the id of the partial entry over the stored one. For
  the partial entry \<open>{id: ''}\<close> on the empty queue the two differ: \<open>add\<close> returns the
  generated id while the entry it appended has the empty id, so the id returned is not
  the id of that entry.
\<close>

theorem add_returns_other_id:
  "snd (addToast ''g1'' (no_fields\<lparr>p_id := Some []\<rparr>) []) = ''g1''
   \<and> map tid (fst (addToast ''g1'' (no_fields\<lparr>p_id := Some []\<rparr>) [])) = [[]]"
  by (simp add: addToast_def no_fields_def spread_def pick_def str_or_def or_str_def Let_def)

section \<open>The broadcast of a completed operation\<close>

text \<open>
  Claim C5, as the code has it. In a queue with one entry per id, \<open>update(id, updates)\<close>
  on the entry with that id merges the fields and dispatches the broadcast of
  \<open>broadcast_of\<close>: when the merge takes the status from another value to \<open>complete\<close> and the
  type the entry had before the merge (or, when that is empty, its lowercased action)
  contains \<open>upload\<close>, \<open>archive\<close> or \<open>archiving\<close>, \<open>restore\<close> or \<open>restoring\<close>, \<open>delete\<close>
  or \<open>deleting\<close>, exactly one \<open>data-changed\<close> event tagged with the first category that
  matches in this order; no event otherwise. An update on an id that is not in the queue
  dispatches nothing.
\<close>

theorem update_broadcasts_on_completion:
  "(distinct (map tid q) \<and> t \<in> set q \<and> tid t = i \<longrightarrow>
      snd (updateToast i u q) = broadcast_of t u
      \<and> fst (updateToast i u q) = map (\<lambda>x. if x = t then spread t u else x) q)
   \<and> (i \<notin> tid ` set q \<longrightarrow> snd (updateToast i u q) = [])"
proof (intro conjI impI)
  assume a: "distinct (map tid q) \<and> t \<in> set q \<and> tid t = i"
  then show "snd (updateToast i u q) = broadcast_of t u"
    using updateToast_events [of q t i u] by blast
  have "\<forall>x\<in>set q. (tid x = i) = (x = t)"
    using a by (metis distinct_map inj_on_def)
  then show "fst (updateToast i u q) = map (\<lambda>x. if x = t then spread t u else x) q"
    using a by (simp add: updateToast_queue spec_update_def)
next
  assume "i \<notin> tid ` set q"
  then show "snd (updateToast i u q) = []"
    using update_absent [of i q u] by simp
qed

text \<open>
  A pending entry added with type \<open>upload\<close> and completed by \<open>update(X, {status:
  'complete'})\<close>: the queue holds it with status \<open>complete\<close> and one \<open>data-changed\<close> event
  tagged \<open>upload\<close> is dispatched; the same update under another id dispatches nothing.
\<close>

theorem update_broadcasts_on_completion_witness:
  "snd (updateToast ''g1'' (no_fields\<lparr>p_status := Some ''complete''\<rparr>)
     [\<lparr>tid = ''g1'', tstatus = ''pending'', progress = 0, title = ''Upload'', message = [],
        fileName = [], action = [], ttype = ''upload'', bulkProgress = None\<rparr>])
   = [DispatchEvent ''data-changed'' (Some ''upload'')]
   \<and> map tstatus (fst (updateToast ''g1'' (no_fields\<lparr>p_status := Some ''complete''\<rparr>)
     [\<lparr>tid = ''g1'', tstatus = ''pending'', progress = 0, title = ''Upload'', message = [],
        fileName = [], action = [], ttype = ''upload'', bulkProgress = None\<rparr>])) = [''complete'']
   \<and> snd (updateToast ''g2'' (no_fields\<lparr>p_status := Some ''complete''\<rparr>)
     [\<lparr>tid = ''g1'', tstatus = ''pending'', progress = 0, title = ''Upload'', message = [],
        fileName = [], action = [], ttype = ''upload'', bulkProgress = None\<rparr>]) = []"
  using update_broadcasts_on_completion [of
      "[\<lparr>tid = ''g1'', tstatus = ''pending'', progress = 0, title = ''Upload'', message = [],
        fileName = [], action = [], ttype = ''upload'', bulkProgress = None\<rparr>]"
      "\<lparr>tid = ''g1'', tstatus = ''pending'', progress = 0, title = ''Upload'', message = [],
        fileName = [], action = [], ttype = ''upload'', bulkProgress = None\<rparr>"
      "''g1''" "no_fields\<lparr>p_status := Some ''complete''\<rparr>"]
    update_broadcasts_on_completion [of
      "[\<lparr>tid = ''g1'', tstatus = ''pending'', progress = 0, title = ''Upload'', message = [],
        fileName = [], action = [], ttype = ''upload'', bulkProgress = None\<rparr>]"
      "\<lparr>tid = ''g1'', tstatus = ''pending'', progress = 0, title = ''Upload'', message = [],
        fileName = [], action = [], ttype = ''upload'', bulkProgress = None\<rparr>"
      "''g2''" "no_fields\<lparr>p_status := Some ''complete''\<rparr>"]
  by (simp add: spread_def pick_def no_fields_def broadcast_of_def completes_iff
      matched_category_def or_str_def data_changed_def)

text \<open>
  \<open>add({title: 'Upload', status: 'pending'})\<close> followed by \<open>update(X, {status: 'complete',
  type: 'upload'})\<close>: the entry is complete and has the type, and no event is dispatched,
  since the type is read from the entry as it was before the merge.
\<close>

theorem update_with_type_in_update_is_silent:
  "updateToast ''g1'' (no_fields\<lparr>p_status := Some ''complete'', p_type := Some ''upload''\<rparr>)
     (fst (addToast ''g1'' (no_fields\<lparr>p_title := Some ''Upload'', p_status := Some ''pending''\<rparr>) []))
   = ([\<lparr>tid = ''g1'', tstatus = ''complete'', progress = 0, title = ''Upload'', message = [],
        fileName = [], action = [], ttype = ''upload'', bulkProgress = None\<rparr>], [])"
  by (simp add: updateToast_def update_entry_def addToast_entry spec_entry_def no_fields_def
      spread_def pick_def or_str_def toLowerCase_def)

section \<open>One entry per id\<close>

lemma tid_spread: "p_id u = None \<or> p_id u = Some (tid t) \<Longrightarrow> tid (spread t u) = tid t"
  by (auto simp: spread_def pick_def)

lemma spec_update_ids:
  "p_id u = None \<or> p_id u = Some i \<Longrightarrow> map tid (spec_update i u q) = map tid q"
  by (induction q) (auto simp: spec_update_def tid_spread)

lemma step_appends:
  "x = Add g p \<or> x = ShowSuccess g m ti \<or> x = ShowError g m ti \<Longrightarrow>
     \<exists>e. fst (step q x) = q @ [e]"
  by (auto simp: addToast_entry showSuccess_def showError_def)

lemma step_keeps_ids_apart:
  "distinct (map tid q) \<Longrightarrow> keeps_ids_apart q x \<Longrightarrow> distinct (map tid (fst (step q x)))"
proof (cases x)
  case (Add g p)
  then obtain e where "fst (step q x) = q @ [e]"
    using step_appends [of x g p] by blast
  then show "distinct (map tid q) \<Longrightarrow> keeps_ids_apart q x \<Longrightarrow> ?thesis"
    using Add by simp
next
  case (Update i u)
  then show "distinct (map tid q) \<Longrightarrow> keeps_ids_apart q x \<Longrightarrow> ?thesis"
    by (simp add: updateToast_queue spec_update_ids)
next
  case (Remove i)
  then show "distinct (map tid q) \<Longrightarrow> keeps_ids_apart q x \<Longrightarrow> ?thesis"
    by (simp add: removeToast_def distinct_map_filter)
next
  case (ShowSuccess g m ti)
  then obtain e where "fst (step q x) = q @ [e]"
    using step_appends [of x g _ m ti] by blast
  then show "distinct (map tid q) \<Longrightarrow> keeps_ids_apart q x \<Longrightarrow> ?thesis"
    using ShowSuccess by simp
next
  case (ShowError g m ti)
  then obtain e where "fst (step q x) = q @ [e]"
    using step_appends [of x g _ m ti] by blast
  then show "distinct (map tid q) \<Longrightarrow> keeps_ids_apart q x \<Longrightarrow> ?thesis"
    using ShowError by simp
qed

lemma run_keeps_ids_apart:
  "distinct (map tid q) \<Longrightarrow> ids_kept_apart q xs \<Longrightarrow> distinct (map tid (fst (run step q xs)))"
  by (induction xs arbitrary: q) (simp_all add: step_keeps_ids_apart)

text \<open>
  Claim C9, as the code has it. For every queue produced from the empty queue by \<open>add\<close>,
  \<open>update\<close>, \<open>remove\<close>, \<open>showSuccess\<close> and \<open>showError\<close> operations in which each added
  entry's id (generated or supplied) is not yet in the queue and no update carries an id
  other than the one it addresses, the queue holds at most one entry per id. An update on
  an id that is not in the queue changes nothing, creates no entry and dispatches nothing.
\<close>

theorem one_entry_per_id:
  "(ids_kept_apart [] ops \<longrightarrow> distinct (map tid (fst (run step [] ops))))
   \<and> (i \<notin> tid ` set q \<longrightarrow> updateToast i u q = (q, []))"
  using run_keeps_ids_apart [of "[]" ops] update_absent [of i q u] by simp

text \<open>A run with generated ids, one supplied id and an update that carries its own id.\<close>

theorem one_entry_per_id_witness:
  "distinct (map tid (fst (run step []
      [Add ''g1'' (no_fields\<lparr>p_title := Some ''Upload''\<rparr>),
       ShowSuccess ''g2'' ''Saved'' None,
       Update ''g1'' (no_fields\<lparr>p_id := Some ''g1'', p_status := Some ''complete''\<rparr>),
       Add ''g3'' (no_fields\<lparr>p_id := Some ''mine''\<rparr>),
       Remove ''g2'',
       ShowError ''g4'' ''Failed'' (Some ''Oops'')])))
   \<and> updateToast ''g9'' (no_fields\<lparr>p_status := Some ''complete''\<rparr>)
        (fst (addToast ''g1'' no_fields [])) = (fst (addToast ''g1'' no_fields []), [])"
  using one_entry_per_id [of
      "[Add ''g1'' (no_fields\<lparr>p_title := Some ''Upload''\<rparr>),
       ShowSuccess ''g2'' ''Saved'' None,
       Update ''g1'' (no_fields\<lparr>p_id := Some ''g1'', p_status := Some ''complete''\<rparr>),
       Add ''g3'' (no_fields\<lparr>p_id := Some ''mine''\<rparr>),
       Remove ''g2'',
       ShowError ''g4'' ''Failed'' (Some ''Oops'')]"
      "''g9''" "fst (addToast ''g1'' no_fields [])" "no_fields\<lparr>p_status := Some ''complete''\<rparr>"]
  by (simp add: addToast_entry showSuccess_def showError_def updateToast_queue spec_update_def
      removeToast_def spec_entry_def no_fields_def pick_def spread_def)

text \<open>Two \<open>add\<close> calls that supply the same id leave two entries with that id.\<close>

theorem two_adds_with_one_id:
  "map tid (fst (run step []
      [Add ''g1'' (no_fields\<lparr>p_id := Some ''a''\<rparr>),
       Add ''g2'' (no_fields\<lparr>p_id := Some ''a''\<rparr>)])) = [''a'', ''a'']"
  by (simp add: addToast_def no_fields_def spread_def pick_def str_or_def or_str_def Let_def)

section \<open>\<open>JSON.parse\<close> reads back what \<open>JSON.stringify\<close> writes\<close>

subsection \<open>Strings\<close>






subsection \<open>Numbers\<close>

lemma digit_char_digit: "d < 10 \<Longrightarrow> is_digit (digit_char d) \<and> (of_char (digit_char d) :: nat) - 48 = d"
  by (simp add: is_digit_def digit_char_def)



lemma digits_head:
  "\<exists>d ds. digits n = digit_char d # ds \<and> d < 10 \<and> (d = 0 \<longrightarrow> n = 0 \<and> ds = [])"
proof (induction n rule: digits.induct)
  case (1 n)
  show ?case
  proof (cases "n < 10")
    case True
    then show ?thesis by (auto simp: digits.simps [of n])
  next
    case False
    then obtain d ds where "digits (n div 10) = digit_char d # ds" "d < 10"
        "d = 0 \<longrightarrow> n div 10 = 0 \<and> ds = []"
      using 1 by blast
    moreover have "n div 10 \<noteq> 0"
      using False by simp
    ultimately show ?thesis
      using False by (auto simp: digits.simps [of n])
  qed
qed





subsection \<open>Values\<close>



lemma show_int_head: "\<exists>c cs. show_int i = c # cs \<and> (c = CHR ''-'' \<or> is_digit c)"
proof -
  obtain d ds where "digits (nat (- i)) = digit_char d # ds" "d < 10"
    using digits_head by blast
  moreover obtain e es where "digits (nat i) = digit_char e # es" "e < 10"
    using digits_head by blast
  ultimately show ?thesis
    using digit_char_digit by (auto simp: show_int_def)
qed

lemma digit_not_opening:
  "is_digit c \<or> c = CHR ''-'' \<Longrightarrow>
     c \<noteq> CHR ''n'' \<and> c \<noteq> CHR ''t'' \<and> c \<noteq> CHR ''f'' \<and> c \<noteq> CHR 0x22 \<and> c \<noteq> CHR ''[''
     \<and> c \<noteq> CHR ''{'' \<and> c \<noteq> CHR '']'' \<and> \<not> is_ws c"
  by (auto simp: is_digit_def is_ws_def)

lemma skip_ws_plain: "s \<noteq> [] \<Longrightarrow> \<not> is_ws (hd s) \<Longrightarrow> skip_ws (s @ t) = s @ t"
  by (cases s) simp_all

lemma skip_ws_sep: "sep r \<Longrightarrow> skip_ws r = r"
  by (cases r) (auto simp: sep_def is_ws_def)

lemma stringify_head:
  "JSON_stringify v \<noteq> [] \<and> hd (JSON_stringify v) \<noteq> CHR '']''
   \<and> \<not> is_ws (hd (JSON_stringify v))"
proof (cases v)
  case (JNum i)
  obtain c cs where c: "show_int i = c # cs" "c = CHR ''-'' \<or> is_digit c"
    using show_int_head by blast
  then have "c \<noteq> CHR '']''" "\<not> is_ws c"
    using digit_not_opening [of c] by blast+
  then show ?thesis
    using JNum c(1) by simp
next
  case (JBool b)
  then show ?thesis by (simp add: is_ws_def)
next
  case (JStr s)
  then show ?thesis by (simp add: quote_def is_ws_def)
qed (simp_all add: is_ws_def)

lemma skip_ws_stringify: "skip_ws (JSON_stringify v @ r) = JSON_stringify v @ r"
  using stringify_head [of v] by (simp add: skip_ws_plain)







section \<open>Cache round trip and read-through\<close>



















section \<open>Demo mode\<close>

lemma includes_past_plain:
  "no_slash e \<Longrightarrow> includes_str (e @ t) (CHR ''/'' # p) = includes_str t (CHR ''/'' # p)"
  by (induction e) (auto simp: no_slash_def)

lemma includes_plain: "no_slash e \<Longrightarrow> includes_str e (CHR ''/'' # p) = False"
  using includes_past_plain [of e "[]" p] by simp

lemma startsWith_past_plain:
  "CHR ''/'' \<notin> set w \<Longrightarrow> t = [] \<or> hd t = CHR ''/'' \<Longrightarrow>
     startsWith (e @ t) w = startsWith e w"
proof (induction e w rule: startsWith.induct)
  case (1 s)
  then show ?case by simp
next
  case (2 p ps)
  then show ?case by (cases t) auto
next
  case (3 c cs p ps)
  then show ?case by simp
qed

lemma startsWith_segment:
  "no_slash e \<Longrightarrow> CHR ''/'' \<notin> set w \<Longrightarrow> t = [] \<or> hd t = CHR ''/'' \<Longrightarrow>
     startsWith (e @ t) (w @ CHR ''/'' # q) = (e = w \<and> startsWith t (CHR ''/'' # q))"
proof (induction e arbitrary: w)
  case Nil
  then show ?case by (cases w; cases t) auto
next
  case (Cons c e)
  then show ?case by (cases w) (auto simp: no_slash_def)
qed

lemma dashboard_segment:
  assumes "no_slash e" and "t = [] \<or> hd t = CHR ''/''"
  shows "startsWith (e @ t) ''dashboard/stats'' = (e = ''dashboard'' \<and> startsWith t ''/stats'')"
    and "startsWith (e @ t) ''dashboard/activity'' = (e = ''dashboard'' \<and> startsWith t ''/activity'')"
    and "startsWith (e @ t) ''dashboard/weekly'' = (e = ''dashboard'' \<and> startsWith t ''/weekly'')"
  using startsWith_segment [OF assms(1) _ assms(2), of "''dashboard''" "''stats''"]
    startsWith_segment [OF assms(1) _ assms(2), of "''dashboard''" "''activity''"]
    startsWith_segment [OF assms(1) _ assms(2), of "''dashboard''" "''weekly''"]
  by simp_all

lemma dashboard_plain:
  assumes "no_slash e"
  shows "startsWith e ''dashboard/stats'' = False"
    and "startsWith e ''dashboard/activity'' = False"
    and "startsWith e ''dashboard/weekly'' = False"
  using dashboard_segment [OF assms, of "[]"] by simp_all

lemma hex_upper_no_slash: "d < 16 \<Longrightarrow> hex_upper d \<noteq> CHR ''/''"
proof
  assume "d < 16" and "hex_upper d = CHR ''/''"
  then have "(of_char (hex_upper d) :: nat) = of_char (CHR ''/'')"
    by simp
  then show False
    using \<open>d < 16\<close> by (simp add: hex_upper_def split: if_splits)
qed

lemma no_slash_encode_char: "CHR ''/'' \<notin> set (encode_char c)"
proof (cases "uri_unreserved c")
  case True
  moreover have "\<not> uri_unreserved (CHR ''/'')"
    by (simp add: uri_unreserved_def)
  ultimately have "c \<noteq> CHR ''/''"
    by blast
  then show ?thesis
    using True by (simp add: encode_char_def)
next
  case False
  have "hex_upper ((of_char c :: nat) div 16) \<noteq> CHR ''/''"
    "hex_upper ((of_char c :: nat) mod 16) \<noteq> CHR ''/''"
    by (simp_all add: hex_upper_no_slash less_mult_imp_div_less)
  then show ?thesis
    using False by (simp add: encode_char_def)
qed

lemma no_slash_encodeURIComponent: "no_slash (encodeURIComponent s)"
  by (induction s) (simp_all add: encodeURIComponent_def no_slash_def no_slash_encode_char)

lemma no_slash_digits: "no_slash (digits n)"
proof (induction n rule: digits.induct)
  case (1 n)
  have "digit_char d \<noteq> CHR ''/''" if "d < 10" for d
    using digit_char_digit [OF that] by (auto simp: is_digit_def)
  then have "digit_char n \<noteq> CHR ''/''" if "n < 10"
    using that by simp
  moreover have "digit_char (n mod 10) \<noteq> CHR ''/''"
    using \<open>\<And>d. d < 10 \<Longrightarrow> digit_char d \<noteq> CHR ''/''\<close> by simp
  ultimately show ?case
    using 1 by (cases "n < 10") (auto simp: digits.simps [of n] no_slash_def)
qed

lemma no_slash_show_int: "no_slash (show_int i)"
  using no_slash_digits [of "nat i"] no_slash_digits [of "nat (- i)"]
  by (simp add: show_int_def no_slash_def)

lemmas marker_simps =
  includes_past_plain includes_plain startsWith_past_plain dashboard_segment dashboard_plain
  no_slash_encodeURIComponent no_slash_show_int

lemma mock_fixed:
  "snd (getMockResponse (endpoint DashboardGetStats)) = canned Stats"
  "snd (getMockResponse (endpoint DashboardGetWeekly)) = canned Weekly"
  "snd (getMockResponse (endpoint KnowledgeGetAll)) = canned Knowledge"
  "snd (getMockResponse (endpoint KnowledgeGetCategories)) = canned Knowledge"
  "snd (getMockResponse (endpoint SystemInstructionsGet)) = canned SystemInstructions"
  "snd (getMockResponse (endpoint (SystemInstructionsSave content msg))) = canned SystemInstructions"
  "snd (getMockResponse (endpoint ContactsGet)) = canned Contacts"
  "snd (getMockResponse (endpoint (ContactsSave contact msg))) = canned Contacts"
  "snd (getMockResponse (endpoint ProjectsGet)) = canned Projects"
  "snd (getMockResponse (endpoint (ProjectsSave projects msg old))) = canned Projects"
  "snd (getMockResponse (endpoint ProjectsUploadImage)) = canned Projects"
  by (simp_all add: getMockResponse_def)

lemma mock_activity:
  "snd (getMockResponse (endpoint (DashboardGetActivity limit))) = canned Activity"
  by (simp add: getMockResponse_def marker_simps)

lemma mock_knowledge:
  "snd (getMockResponse (endpoint (KnowledgeGet category))) = canned Knowledge"
  "snd (getMockResponse (endpoint (KnowledgeSave category content))) = canned Knowledge"
  by (simp_all add: getMockResponse_def marker_simps)

lemma mock_communication_all:
  "no_slash status \<Longrightarrow>
     snd (getMockResponse (endpoint (CommunicationGetAll status))) = canned Communication"
  by (simp add: getMockResponse_def marker_simps)

lemma mock_communication_record:
  assumes "plain_record_id recordId"
  shows "snd (getMockResponse (endpoint (CommunicationUpdateStatus recordId status))) = canned Communication"
    and "snd (getMockResponse (endpoint (CommunicationDelete recordId))) = canned Communication"
  using assms by (simp_all add: getMockResponse_def plain_record_id_def marker_simps)

lemma mock_of_call:
  "plain_arguments c \<Longrightarrow> c \<noteq> HealthCheck \<Longrightarrow>
     snd (getMockResponse (endpoint c)) = canned (group_of c)"
  by (cases c)
    (simp_all only: mock_fixed mock_activity mock_knowledge mock_communication_all
      mock_communication_record group_of.simps plain_arguments.simps api_call.simps
      not_False_eq_True not_True_eq_False simp_thms)

text \<open>
  Claim C4, as the code has it. When the resolved token is the demo sentinel, every method
  of the \<open>api\<close> object whose path arguments are plain leaves the storage alone, issues no
  request, and resolves to the canned payload of its endpoint group: after the artificial
  delay for the groups served by \<open>apiRequest\<close> (dashboard stats, activity and weekly,
  knowledge, system instructions, projects, contacts, communication), and at once, with no
  delay, for the health check, whose payload is \<open>true\<close>.
\<close>

theorem demo_mode_is_isolated:
  assumes "isDemoMode b" and "plain_arguments c"
  shows "perform e b c =
      (b, (if c = HealthCheck then [] else [Delay]), Inr (canned (group_of c)))"
proof (cases "c = HealthCheck")
  case True
  then show ?thesis
    using assms(1) by (simp add: perform_def health_check_def)
next
  case False
  have "fst (getMockResponse (endpoint c)) = [Delay]"
    by (simp add: getMockResponse_def)
  then show ?thesis
    using False assms mock_of_call [of c] by (simp add: perform_def apiRequest_def)
qed

text \<open>A status update of a communication record in demo mode.\<close>

theorem demo_mode_is_isolated_witness:
  "perform \<lparr>API_BASE_URL = ''http://localhost:8000'', fetch = (\<lambda>r. Inl ''offline'')\<rparr>
     \<lparr>sessionStorage = \<lparr>items = [(''admin_token'', ''TEST_TOKEN_DEMO_MODE'')], quota = 1000\<rparr>,
      localStorage = \<lparr>items = [], quota = 1000\<rparr>\<rparr>
     (CommunicationUpdateStatus ''r42'' ''done'')
   = (\<lparr>sessionStorage = \<lparr>items = [(''admin_token'', ''TEST_TOKEN_DEMO_MODE'')], quota = 1000\<rparr>,
      localStorage = \<lparr>items = [], quota = 1000\<rparr>\<rparr>,
      [Delay],
      Inr (JObj [(''status'', JStr ''success''), (''records'', JArr []), (''count'', JNum 0)]))"
  using demo_mode_is_isolated [of
      "\<lparr>sessionStorage = \<lparr>items = [(''admin_token'', ''TEST_TOKEN_DEMO_MODE'')], quota = 1000\<rparr>,
        localStorage = \<lparr>items = [], quota = 1000\<rparr>\<rparr>"
      "CommunicationUpdateStatus ''r42'' ''done''"
      "\<lparr>API_BASE_URL = ''http://localhost:8000'', fetch = (\<lambda>r. Inl ''offline'')\<rparr>"]
  by (simp add: isDemoMode_def getToken_def or_null_def getItem_def TOKEN_STORAGE_KEY_def
      plain_record_id_def no_slash_def success_def)

text \<open>The health check in demo mode answers \<open>true\<close> with no delay.\<close>

theorem demo_health_check_has_no_delay:
  "perform \<lparr>API_BASE_URL = ''http://localhost:8000'', fetch = (\<lambda>r. Inl ''offline'')\<rparr>
     \<lparr>sessionStorage = \<lparr>items = [(''admin_token'', ''TEST_TOKEN_DEMO_MODE'')], quota = 1000\<rparr>,
      localStorage = \<lparr>items = [], quota = 1000\<rparr>\<rparr>
     HealthCheck
   = (\<lparr>sessionStorage = \<lparr>items = [(''admin_token'', ''TEST_TOKEN_DEMO_MODE'')], quota = 1000\<rparr>,
      localStorage = \<lparr>items = [], quota = 1000\<rparr>\<rparr>,
      [],
      Inr (JBool True))"
  by (simp add: perform_def health_check_def isDemoMode_def getToken_def or_null_def getItem_def
      TOKEN_STORAGE_KEY_def)

text \<open>
  A record id that begins with the name of another group is answered with that group's
  payload.
\<close>

lemma demo_record_id_named_like_a_group:
  "snd (snd (perform \<lparr>API_BASE_URL = ''http://localhost:8000'', fetch = (\<lambda>r. Inl ''offline'')\<rparr>
     \<lparr>sessionStorage = \<lparr>items = [(''admin_token'', ''TEST_TOKEN_DEMO_MODE'')], quota = 1000\<rparr>,
      localStorage = \<lparr>items = [], quota = 1000\<rparr>\<rparr>
     (CommunicationDelete ''projects'')))
   = Inr (JObj [(''status'', JStr ''success''), (''projects'', JArr [])])"
  by (simp add: perform_def apiRequest_def getMockResponse_def isDemoMode_def getToken_def
      or_null_def getItem_def TOKEN_STORAGE_KEY_def success_def)

end
